theory Spec2Isabelle
  imports Complex_Main "HOL-Library.AList"
begin

section \<open>Python values and built-ins used by the planner\<close>

text \<open>
  Field names are the source's, except where two classes share one: \<open>JobStage.id\<close> is
  \<open>sid\<close>, \<open>Job.name\<close> is \<open>job_name\<close>, \<open>JobOrigin.cluster\<close> and \<open>JobOrigin.node\<close> are
  \<open>origin_cluster\<close> and \<open>origin_node\<close>, and a node's \<open>hardware.gpu_vram_gb\<close> is
  \<open>hw_gpu_vram_gb\<close>.
\<close>

text \<open>
  A decoded JSON document, as \<open>request.get_json\<close> hands it to the program: \<open>None\<close>,
  \<open>bool\<close>, \<open>int\<close>, \<open>float\<close>, \<open>str\<close>, \<open>list\<close> and \<open>dict\<close> with string keys.
  A \<open>dict\<close> is an association list in insertion order with distinct keys. Floats are
  idealised as reals (no rounding, no \<open>nan\<close>, no \<open>inf\<close>).
\<close>

datatype json =
    JNull
  | JBool bool
  | JInt int
  | JFloat real
  | JStr string
  | JArr "json list"
  | JObj "(string \<times> json) list"

text \<open>Exceptions the modelled code can raise.\<close>

datatype error =
    JobSpecError string
  | AttributeError
  | TypeError
  | ValueError
  | ZeroDivisionError
  | NoFeasibleFormat
  | FloatNaN

definition bindE :: "error + 'a \<Rightarrow> ('a \<Rightarrow> error + 'b) \<Rightarrow> error + 'b" where
  "bindE m f = (case m of Inl e \<Rightarrow> Inl e | Inr x \<Rightarrow> f x)"

text \<open>Python truthiness (\<open>bool(x)\<close>, \<open>x or y\<close>, \<open>if x\<close>, \<open>not x\<close>).\<close>

fun truthy :: "json \<Rightarrow> bool" where
  "truthy JNull = False"
| "truthy (JBool b) = b"
| "truthy (JInt n) = (n \<noteq> 0)"
| "truthy (JFloat r) = (r \<noteq> 0)"
| "truthy (JStr s) = (s \<noteq> [])"
| "truthy (JArr xs) = (xs \<noteq> [])"
| "truthy (JObj kvs) = (kvs \<noteq> [])"

fun is_dict :: "json \<Rightarrow> bool" where
  "is_dict (JObj kvs) = True"
| "is_dict v = False"

text \<open>\<open>x or {}\<close>.\<close>

definition or_empty_dict :: "json \<Rightarrow> json" where
  "or_empty_dict x = (if truthy x then x else JObj [])"

text \<open>\<open>x or []\<close>.\<close>

definition or_empty_list :: "json \<Rightarrow> json" where
  "or_empty_list x = (if truthy x then x else JArr [])"

text \<open>\<open>payload.get(key, default)\<close>; only a \<open>dict\<close> has the method.\<close>

fun dict_get :: "json \<Rightarrow> string \<Rightarrow> json \<Rightarrow> error + json" where
  "dict_get (JObj kvs) key dflt = Inr (case map_of kvs key of Some v \<Rightarrow> v | None \<Rightarrow> dflt)"
| "dict_get v key dflt = Inl AttributeError"

text \<open>\<open>list(x)\<close>: a list is copied, a dict gives its keys, a string its characters.\<close>

fun py_list :: "json \<Rightarrow> error + json list" where
  "py_list (JArr xs) = Inr xs"
| "py_list (JObj kvs) = Inr (map (\<lambda>kv. JStr (fst kv)) kvs)"
| "py_list (JStr s) = Inr (map (\<lambda>c. JStr [c]) s)"
| "py_list v = Inl TypeError"

primrec starts_with :: "string \<Rightarrow> string \<Rightarrow> bool" where
  "starts_with [] ys = True"
| "starts_with (x # xs) ys = (case ys of [] \<Rightarrow> False | y # ys' \<Rightarrow> x = y \<and> starts_with xs ys')"

primrec substring_of :: "string \<Rightarrow> string \<Rightarrow> bool" where
  "substring_of xs [] = (xs = [])"
| "substring_of xs (y # ys) = (starts_with xs (y # ys) \<or> substring_of xs ys)"

text \<open>\<open>key in payload\<close> for a string key.\<close>

fun py_contains :: "string \<Rightarrow> json \<Rightarrow> error + bool" where
  "py_contains key (JObj kvs) = Inr (map_of kvs key \<noteq> None)"
| "py_contains key (JArr xs) = Inr (JStr key \<in> set xs)"
| "py_contains key (JStr s) = Inr (substring_of key s)"
| "py_contains key v = Inl TypeError"

text \<open>\<open>payload[key]\<close> for a string key that is known to be in the payload.\<close>

fun py_getitem :: "json \<Rightarrow> string \<Rightarrow> error + json" where
  "py_getitem (JObj kvs) key = (case map_of kvs key of Some v \<Rightarrow> Inr v | None \<Rightarrow> Inl TypeError)"
| "py_getitem v key = Inl TypeError"

text \<open>
  The two conversions whose result depends on Python's text formats are parameters:
  \<open>str(x)\<close> of a value that is not a \<open>str\<close>, and \<open>int(s)\<close> of a \<open>str\<close>
  (\<open>None\<close> stands for \<open>ValueError\<close>).
\<close>

record py_builtins =
  str_of :: "json \<Rightarrow> string"
  int_of_str :: "string \<Rightarrow> int option"

definition py_str :: "py_builtins \<Rightarrow> json \<Rightarrow> string" where
  "py_str B v = (case v of JStr s \<Rightarrow> s | _ \<Rightarrow> str_of B v)"

definition trunc :: "real \<Rightarrow> int" where
  "trunc r = (if 0 \<le> r then \<lfloor>r\<rfloor> else \<lceil>r\<rceil>)"

fun py_int :: "py_builtins \<Rightarrow> json \<Rightarrow> error + int" where
  "py_int B (JInt n) = Inr n"
| "py_int B (JBool b) = Inr (if b then 1 else 0)"
| "py_int B (JFloat r) = Inr (trunc r)"
| "py_int B (JStr s) = (case int_of_str B s of Some n \<Rightarrow> Inr n | None \<Rightarrow> Inl ValueError)"
| "py_int B v = Inl TypeError"

section \<open>Jobs (dt/state.py dataclasses, as dt/jobs.py constructs them)\<close>

record StageCompute =
  cpu :: int
  mem_gb :: int
  duration_ms :: int
  gpu_vram_gb :: int
  workload_type :: string

record StageConstraints =
  arch :: "json list"
  formats :: "json list"
  data_locality :: json
  max_latency_to_predecessor_ms :: json

record JobStage =
  sid :: string
  compute :: StageCompute
  constraints :: StageConstraints
  predecessor :: json

record JobOrigin =
  origin_cluster :: string
  origin_node :: json

record Job =
  job_name :: string
  deadline_ms :: int
  stages :: "JobStage list"
  origin :: "JobOrigin option"

section \<open>dt/jobs.py\<close>

text \<open>\<open>_require(key, payload)\<close>.\<close>

definition require :: "string \<Rightarrow> json \<Rightarrow> error + json" where
  "require key payload =
     bindE (py_contains key payload) (\<lambda>present.
       if \<not> present then Inl (JobSpecError (''missing required field: '' @ key))
       else bindE (py_getitem payload key) (\<lambda>v.
         if v = JNull \<or> v = JStr [] then Inl (JobSpecError (''missing required field: '' @ key))
         else Inr v))"

text \<open>The \<open>origin\<close> block of \<open>parse_job_spec\<close> (source lines 42-48).\<close>

definition parse_origin :: "py_builtins \<Rightarrow> json \<Rightarrow> error + JobOrigin option" where
  "parse_origin B origin_data =
     (if truthy origin_data then
        bindE (dict_get origin_data ''cluster'' (JStr ''dc-core'')) (\<lambda>c.
        bindE (dict_get origin_data ''node'' JNull) (\<lambda>n.
          Inr (Some \<lparr>origin_cluster = py_str B c, origin_node = n\<rparr>)))
      else Inr None)"

text \<open>The body of the stage loop of \<open>parse_job_spec\<close> (source lines 52-74).\<close>

definition parse_stage :: "py_builtins \<Rightarrow> json \<Rightarrow> error + JobStage" where
  "parse_stage B stage_spec =
     bindE (require ''id'' stage_spec) (\<lambda>i.
     bindE (dict_get stage_spec ''compute'' JNull) (\<lambda>cs.
     bindE (dict_get stage_spec ''constraints'' JNull) (\<lambda>ks.
     bindE (dict_get (or_empty_dict cs) ''cpu'' (JInt 0)) (\<lambda>v1.
     bindE (py_int B v1) (\<lambda>c_cpu.
     bindE (dict_get (or_empty_dict cs) ''mem_gb'' (JInt 0)) (\<lambda>v2.
     bindE (py_int B v2) (\<lambda>c_mem.
     bindE (dict_get (or_empty_dict cs) ''duration_ms'' (JInt 0)) (\<lambda>v3.
     bindE (py_int B v3) (\<lambda>c_dur.
     bindE (dict_get (or_empty_dict cs) ''gpu_vram_gb'' (JInt 0)) (\<lambda>v4.
     bindE (py_int B v4) (\<lambda>c_gpu.
     bindE (dict_get (or_empty_dict cs) ''workload_type'' (JStr ''cpu_bound'')) (\<lambda>v5.
     bindE (dict_get (or_empty_dict ks) ''arch'' (JArr [JStr ''amd64''])) (\<lambda>v6.
     bindE (py_list v6) (\<lambda>k_arch.
     bindE (dict_get (or_empty_dict ks) ''formats'' (JArr [JStr ''native''])) (\<lambda>v7.
     bindE (py_list v7) (\<lambda>k_formats.
     bindE (dict_get (or_empty_dict ks) ''data_locality'' JNull) (\<lambda>k_loc.
     bindE (dict_get (or_empty_dict ks) ''max_latency_to_predecessor_ms'' JNull) (\<lambda>k_max.
     bindE (dict_get stage_spec ''predecessor'' JNull) (\<lambda>p.
       Inr \<lparr>sid = py_str B i,
            compute = \<lparr>cpu = c_cpu, mem_gb = c_mem, duration_ms = c_dur,
                       gpu_vram_gb = c_gpu, workload_type = py_str B v5\<rparr>,
            constraints = \<lparr>arch = k_arch, formats = k_formats, data_locality = k_loc,
                           max_latency_to_predecessor_ms = k_max\<rparr>,
            predecessor = p\<rparr>)))))))))))))))))))"

text \<open>The stage loop: the first exception ends it.\<close>

fun parse_stages :: "py_builtins \<Rightarrow> json list \<Rightarrow> error + JobStage list" where
  "parse_stages B [] = Inr []"
| "parse_stages B (stage_spec # rest) =
     bindE (parse_stage B stage_spec) (\<lambda>stage.
     bindE (parse_stages B rest) (\<lambda>parsed. Inr (stage # parsed)))"

definition parse_job_spec :: "py_builtins \<Rightarrow> json \<Rightarrow> error + Job" where
  "parse_job_spec B job_spec =
     (if \<not> is_dict job_spec then Inl (JobSpecError ''job spec must be an object'')
      else
        bindE (dict_get job_spec ''metadata'' JNull) (\<lambda>m.
        bindE (dict_get job_spec ''spec'' JNull) (\<lambda>s.
        bindE (dict_get (or_empty_dict s) ''stages'' JNull) (\<lambda>ss.
        bindE (py_list (or_empty_list ss)) (\<lambda>stages_spec.
          if stages_spec = [] then
            Inl (JobSpecError ''job spec must include at least one stage'')
          else
            bindE (require ''name'' (or_empty_dict m)) (\<lambda>nm.
            bindE (dict_get (or_empty_dict m) ''deadline_ms'' (JInt 60000)) (\<lambda>d.
            bindE (py_int B d) (\<lambda>dl.
            bindE (dict_get (or_empty_dict m) ''origin'' JNull) (\<lambda>od.
            bindE (parse_origin B (or_empty_dict od)) (\<lambda>og.
            bindE (parse_stages B stages_spec) (\<lambda>sts.
              Inr \<lparr>job_name = py_str B nm, deadline_ms = dl, stages = sts, origin = og\<rparr>)))))))))))"

section \<open>Cluster state and collaborators\<close>

text \<open>
  dt/state.py, dt/predict.py, dt/cluster_manager.py, dt/failures/resiliency_scorer.py,
  dt/policy/greedy.py and dt/seed.py are collaborators of the modelled code. Their data is
  given with the attributes the modelled code reads, and their operations are parameters:
  what each of them answers while one request is served.
\<close>

record NodeHardware =
  hw_gpu_vram_gb :: real

record NodeK8s =
  allocatable_cpu :: real
  allocatable_mem_gb :: real

record NodeTel =
  cpu_util :: real
  mem_util :: real

record Node =
  name :: string
  hardware :: NodeHardware
  k8s :: NodeK8s
  tel :: "NodeTel option"
  available :: bool

record DTState =
  list_nodes :: "Node list"
  get_node :: "string \<Rightarrow> Node option"
  get_cluster :: "string \<Rightarrow> string option"

record PlacementDecision =
  stage_id :: string
  node_name :: string
  exec_format :: string

type_synonym placements = "(string \<times> PlacementDecision) list"

record PlanMetrics =
  latency_ms :: real
  energy_kwh :: real
  risk_score :: real
  sla_violations :: nat

text \<open>
  \<open>choose_exec_format\<close> may raise (the simulator's \<open>NoFeasibleFormat\<close>); the policies do
  not catch it.
\<close>

record PredictiveSimulator =
  choose_exec_format :: "JobStage \<Rightarrow> Node \<Rightarrow> error + string"
  compute_stage_latency_ms :: "JobStage \<Rightarrow> Node \<Rightarrow> string \<Rightarrow> real"
  compute_network_delay_ms :: "Node \<Rightarrow> Node \<Rightarrow> real"
  score_plan :: "Job \<Rightarrow> placements \<Rightarrow> PlanMetrics"

text \<open>\<open>ClusterManager.get_latency_between(cluster_a, cluster_b, node_a, node_b)\<close>.\<close>

type_synonym ClusterManager = "string \<Rightarrow> string \<Rightarrow> json \<Rightarrow> string \<Rightarrow> real"

text \<open>
  NumPy's process-global generator: \<open>np.random.lognormal(mean, sigma)\<close> returns a sample
  and advances the generator's state \<open>'g\<close>.
\<close>

type_synonym 'g lognormal = "real \<Rightarrow> real \<Rightarrow> 'g \<Rightarrow> real \<times> 'g"

section \<open>Policies: common part\<close>

text \<open>
  The attributes both policy classes hold: \<open>state\<close> and \<open>sim\<close> from the base class, and
  \<open>cluster_manager\<close> and \<open>resiliency_scorer\<close> (its \<open>compute_node_score\<close>), which each
  subclass sets in the same way.
\<close>

record Policy =
  state :: DTState
  sim :: PredictiveSimulator
  cluster_manager :: "ClusterManager option"
  resiliency_scorer :: "string \<Rightarrow> real"

text \<open>\<open>_compute_origin_latency\<close>, written identically in both policy classes.\<close>

definition compute_origin_latency :: "'a Policy_scheme \<Rightarrow> Job \<Rightarrow> Node \<Rightarrow> real" where
  "compute_origin_latency P job candidate_node =
     (case origin job of
        None \<Rightarrow> 0
      | Some og \<Rightarrow>
          (case cluster_manager P of
             None \<Rightarrow> 0
           | Some cm \<Rightarrow>
               (case get_cluster (state P) (name candidate_node) of
                  None \<Rightarrow> 0
                | Some candidate_cluster \<Rightarrow>
                    if candidate_cluster = [] then 0
                    else cm (origin_cluster og) candidate_cluster (origin_node og)
                           (name candidate_node))))"

text \<open>
  A Python \<open>dict\<close> keeps a key's first position when its value is replaced and appends a
  new key: \<open>d[k] = v\<close> is \<open>AList.update k v d\<close>, \<open>d.get(k)\<close> is \<open>map_of d k\<close>.
  A dict comprehension inserts its items one after the other.
\<close>

definition py_dict :: "('k \<times> 'v) list \<Rightarrow> ('k \<times> 'v) list" where
  "py_dict items = foldl (\<lambda>d kv. AList.update (fst kv) (snd kv) d) [] items"

section \<open>dt/policy/resilient.py\<close>

record ResilientPolicy = Policy +
  capacity_weight :: real
  resiliency_weight :: real
  utilization_weight :: real

text \<open>\<open>math.isclose(a, b)\<close> with its defaults \<open>rel_tol = 1e-09\<close>, \<open>abs_tol = 0.0\<close>.\<close>

definition isclose :: "real \<Rightarrow> real \<Rightarrow> bool" where
  "isclose a b = (\<bar>a - b\<bar> \<le> max (max \<bar>a\<bar> \<bar>b\<bar> / 1000000000) 0)"

text \<open>\<open>ResilientPolicy.__init__\<close>; dividing by a zero total raises.\<close>

definition ResilientPolicy_init ::
  "DTState \<Rightarrow> PredictiveSimulator \<Rightarrow> ClusterManager option \<Rightarrow> (string \<Rightarrow> real) \<Rightarrow>
   real \<Rightarrow> real \<Rightarrow> real \<Rightarrow> error + ResilientPolicy" where
  "ResilientPolicy_init st simulator cm scorer cw rw uw =
     (let total = cw + rw + uw in
      if \<not> isclose total 1 then
        (if total = 0 then Inl ZeroDivisionError
         else Inr \<lparr>state = st, sim = simulator, cluster_manager = cm, resiliency_scorer = scorer,
                   capacity_weight = cw / total, resiliency_weight = rw / total,
                   utilization_weight = uw / total\<rparr>)
      else Inr \<lparr>state = st, sim = simulator, cluster_manager = cm, resiliency_scorer = scorer,
                capacity_weight = cw, resiliency_weight = rw, utilization_weight = uw\<rparr>)"

definition resilient_candidate_nodes :: "ResilientPolicy \<Rightarrow> JobStage \<Rightarrow> Node list" where
  "resilient_candidate_nodes P stage =
     filter (\<lambda>nd.
        available nd
        \<and> \<not> (gpu_vram_gb (compute stage) > 0
              \<and> hw_gpu_vram_gb (hardware nd) < real_of_int (gpu_vram_gb (compute stage)))
        \<and> \<not> allocatable_cpu (k8s nd) < real_of_int (cpu (compute stage))
        \<and> \<not> allocatable_mem_gb (k8s nd) < real_of_int (mem_gb (compute stage)))
       (list_nodes (state P))"

definition score_capacity_fit :: "JobStage \<Rightarrow> Node \<Rightarrow> real" where
  "score_capacity_fit stage nd =
     (if allocatable_cpu (k8s nd) \<le> 0 \<or> allocatable_mem_gb (k8s nd) \<le> 0 then 0
      else
        let cpu_fit = 1 - real_of_int (cpu (compute stage)) / allocatable_cpu (k8s nd);
            mem_fit = 1 - real_of_int (mem_gb (compute stage)) / allocatable_mem_gb (k8s nd)
        in max 0 (min cpu_fit mem_fit))"

definition utilization_score :: "Node \<Rightarrow> real" where
  "utilization_score nd =
     (let util = (case tel nd of Some t \<Rightarrow> max (cpu_util t) (mem_util t) / 100 | None \<Rightarrow> 0)
      in max 0 (1 - util))"

text \<open>
  \<open>stage.predecessor and stage.predecessor in prev_node_for\<close>, then
  \<open>prev_node_for[stage.predecessor]\<close>: the keys are strings; a list or a dict is not
  hashable.
\<close>

definition lookup_predecessor :: "json \<Rightarrow> (string \<times> 'a) list \<Rightarrow> error + 'a option" where
  "lookup_predecessor p d =
     (if \<not> truthy p then Inr None
      else case p of
             JStr s \<Rightarrow> Inr (map_of d s)
           | JArr xs \<Rightarrow> Inl TypeError
           | JObj kvs \<Rightarrow> Inl TypeError
           | _ \<Rightarrow> Inr None)"

text \<open>The \<open>latency_ms\<close> of one candidate in \<open>place\<close> (source lines 104-112).\<close>

definition resilient_latency_ms ::
  "ResilientPolicy \<Rightarrow> Job \<Rightarrow> JobStage \<Rightarrow> (string \<times> Node) list \<Rightarrow> Node \<Rightarrow> string \<Rightarrow> error + real" where
  "resilient_latency_ms P job stage prev_node_for nd fmt =
     bindE (lookup_predecessor (predecessor stage) prev_node_for) (\<lambda>pn.
       Inr (compute_stage_latency_ms (sim P) stage nd fmt
            + (case pn of Some p \<Rightarrow> compute_network_delay_ms (sim P) p nd | None \<Rightarrow> 0)
            + (if \<not> truthy (predecessor stage) \<and> origin job \<noteq> None
               then compute_origin_latency P job nd else 0)))"

text \<open>The \<open>composite\<close> of one candidate (source lines 114-123).\<close>

definition resilient_composite :: "ResilientPolicy \<Rightarrow> JobStage \<Rightarrow> Node \<Rightarrow> real \<Rightarrow> real" where
  "resilient_composite P stage nd lat =
     capacity_weight P * score_capacity_fit stage nd
     + resiliency_weight P * resiliency_scorer P (name nd)
     + utilization_weight P * utilization_score nd
     - lat / 1000"

text \<open>
  The candidate loop. \<open>None\<close> is the initial \<open>best_node = None\<close>, \<open>best_score = -inf\<close>,
  which every composite beats.
\<close>

fun resilient_scan ::
  "ResilientPolicy \<Rightarrow> Job \<Rightarrow> JobStage \<Rightarrow> (string \<times> Node) list \<Rightarrow> Node list \<Rightarrow>
   (Node \<times> real \<times> string) option \<Rightarrow> error + (Node \<times> real \<times> string) option" where
  "resilient_scan P job stage prev_node_for [] best = Inr best"
| "resilient_scan P job stage prev_node_for (nd # rest) best =
     bindE (choose_exec_format (sim P) stage nd) (\<lambda>fmt.
     bindE (resilient_latency_ms P job stage prev_node_for nd fmt) (\<lambda>lat.
       let composite = resilient_composite P stage nd lat in
       resilient_scan P job stage prev_node_for rest
         (if (case best of None \<Rightarrow> True | Some (bn, best_score, bf) \<Rightarrow> composite > best_score)
          then Some (nd, composite, fmt) else best)))"

text \<open>The stage loop of \<open>place\<close>.\<close>

fun resilient_place_loop ::
  "ResilientPolicy \<Rightarrow> Job \<Rightarrow> JobStage list \<Rightarrow> placements \<Rightarrow> (string \<times> Node) list \<Rightarrow>
   error + placements" where
  "resilient_place_loop P job [] pl prev_node_for = Inr pl"
| "resilient_place_loop P job (stage # rest) pl prev_node_for =
     bindE (resilient_scan P job stage prev_node_for (resilient_candidate_nodes P stage) None)
       (\<lambda>best.
          case best of
            None \<Rightarrow> resilient_place_loop P job rest pl prev_node_for
          | Some (best_node, best_score, best_format) \<Rightarrow>
              resilient_place_loop P job rest
                (AList.update (sid stage)
                   \<lparr>stage_id = sid stage, node_name = name best_node,
                    exec_format = best_format\<rparr> pl)
                (AList.update (sid stage) best_node prev_node_for))"

definition resilient_place :: "ResilientPolicy \<Rightarrow> Job \<Rightarrow> error + placements" where
  "resilient_place P job = resilient_place_loop P job (stages job) [] []"

section \<open>dt/policy/cvar.py\<close>

record RiskAwareCvarPolicy = Policy +
  alpha :: real
  risk_weight :: real

definition RiskAwareCvarPolicy_init ::
  "DTState \<Rightarrow> PredictiveSimulator \<Rightarrow> ClusterManager option \<Rightarrow> (string \<Rightarrow> real) \<Rightarrow>
   real \<Rightarrow> real \<Rightarrow> RiskAwareCvarPolicy" where
  "RiskAwareCvarPolicy_init st simulator cm scorer a rw =
     \<lparr>state = st, sim = simulator, cluster_manager = cm, resiliency_scorer = scorer,
      alpha = a, risk_weight = rw\<rparr>"

definition cvar_candidate_nodes :: "RiskAwareCvarPolicy \<Rightarrow> JobStage \<Rightarrow> Node list" where
  "cvar_candidate_nodes P stage = filter available (list_nodes (state P))"

text \<open>
  \<open>np.quantile(samples, q)\<close> with the default linear interpolation between the two
  nearest order statistics. A \<open>q\<close> outside \<open>[0, 1]\<close> raises \<open>ValueError\<close>; an empty
  sample gives \<open>nan\<close>, which is reported as \<open>FloatNaN\<close>.
\<close>

definition np_quantile :: "real list \<Rightarrow> real \<Rightarrow> error + real" where
  "np_quantile xs q =
     (if \<not> (0 \<le> q \<and> q \<le> 1) then Inl ValueError
      else if xs = [] then Inl FloatNaN
      else
        let s = sort xs;
            h = q * real (length xs - 1);
            lo = nat \<lfloor>h\<rfloor>;
            hi = min (lo + 1) (length xs - 1)
        in Inr (s ! lo + (h - real lo) * (s ! hi - s ! lo)))"

text \<open>\<open>np.mean\<close> of a non-empty list.\<close>

definition np_mean :: "real list \<Rightarrow> real" where
  "np_mean xs = sum_list xs / real (length xs)"

text \<open>The \<open>origin_lat\<close> of \<open>_sample_cost\<close> (source lines 61-68).\<close>

definition sample_origin_lat :: "RiskAwareCvarPolicy \<Rightarrow> Job \<Rightarrow> placements \<Rightarrow> real" where
  "sample_origin_lat P job pl =
     (if origin job \<noteq> None then
        (case stages job of
           [] \<Rightarrow> 0
         | first_stage # others \<Rightarrow>
             (case map_of pl (sid first_stage) of
                None \<Rightarrow> 0
              | Some decision \<Rightarrow>
                  (case get_node (state P) (node_name decision) of
                     None \<Rightarrow> 0
                   | Some nd \<Rightarrow> compute_origin_latency P job nd)))
      else 0)"

text \<open>The sampling loop of \<open>_sample_cost\<close>: \<open>runs\<close> draws, in order.\<close>

fun sample_loop ::
  "'g lognormal \<Rightarrow> RiskAwareCvarPolicy \<Rightarrow> Job \<Rightarrow> placements \<Rightarrow> nat \<Rightarrow> 'g \<Rightarrow> real list \<times> 'g" where
  "sample_loop L P job pl 0 g = ([], g)"
| "sample_loop L P job pl (Suc runs) g =
     (case L 0 (15 / 100) g of
        (noise, g1) \<Rightarrow>
          (case sample_loop L P job pl runs g1 of
             (drawn, g2) \<Rightarrow>
               ((latency_ms (score_plan (sim P) job pl) + sample_origin_lat P job pl) * noise
                  # drawn, g2)))"

definition sample_cost ::
  "'g lognormal \<Rightarrow> RiskAwareCvarPolicy \<Rightarrow> Job \<Rightarrow> placements \<Rightarrow> nat \<Rightarrow> 'g \<Rightarrow> error + real \<times> 'g" where
  "sample_cost L P job pl runs g =
     (case sample_loop L P job pl runs g of
        (samples, g1) \<Rightarrow>
          bindE (np_quantile samples (alpha P)) (\<lambda>q.
            let tail = filter (\<lambda>s. s \<ge> q) samples
            in Inr (if tail \<noteq> [] then np_mean tail else q, g1)))"

text \<open>
  The candidate loop of \<open>place\<close>. \<open>None\<close> is the initial \<open>best_dec = None\<close>,
  \<open>best_cvar = inf\<close>, which every adjusted cost undercuts.
\<close>

fun cvar_scan ::
  "'g lognormal \<Rightarrow> RiskAwareCvarPolicy \<Rightarrow> Job \<Rightarrow> JobStage \<Rightarrow> placements \<Rightarrow> Node list \<Rightarrow>
   (PlacementDecision \<times> real) option \<Rightarrow> 'g \<Rightarrow> error + (PlacementDecision \<times> real) option \<times> 'g" where
  "cvar_scan L P job stage pl [] best g = Inr (best, g)"
| "cvar_scan L P job stage pl (nd # rest) best g =
     (if gpu_vram_gb (compute stage) > 0
         \<and> hw_gpu_vram_gb (hardware nd) < real_of_int (gpu_vram_gb (compute stage))
      then cvar_scan L P job stage pl rest best g
      else
        bindE (choose_exec_format (sim P) stage nd) (\<lambda>fmt.
          let dec = \<lparr>stage_id = sid stage, node_name = name nd, exec_format = fmt\<rparr>;
              candidate_plan = AList.update (sid stage) dec pl
          in bindE (sample_cost L P job candidate_plan 16 g) (\<lambda>(cvar, g1).
               let resiliency = resiliency_scorer P (name nd);
                   risk_penalty = risk_weight P * (1 - resiliency);
                   adjusted_cvar = cvar * (1 + risk_penalty)
               in cvar_scan L P job stage pl rest
                    (if (case best of None \<Rightarrow> True
                         | Some (bd, best_cvar) \<Rightarrow> adjusted_cvar < best_cvar)
                     then Some (dec, adjusted_cvar) else best) g1)))"

fun cvar_place_loop ::
  "'g lognormal \<Rightarrow> RiskAwareCvarPolicy \<Rightarrow> Job \<Rightarrow> JobStage list \<Rightarrow> placements \<Rightarrow> 'g \<Rightarrow>
   error + placements \<times> 'g" where
  "cvar_place_loop L P job [] pl g = Inr (pl, g)"
| "cvar_place_loop L P job (stage # rest) pl g =
     bindE (cvar_scan L P job stage pl (cvar_candidate_nodes P stage) None g) (\<lambda>(best, g1).
       case best of
         Some (best_dec, best_cvar) \<Rightarrow>
           cvar_place_loop L P job rest (AList.update (sid stage) best_dec pl) g1
       | None \<Rightarrow> cvar_place_loop L P job rest pl g1)"

definition cvar_place ::
  "'g lognormal \<Rightarrow> RiskAwareCvarPolicy \<Rightarrow> Job \<Rightarrow> 'g \<Rightarrow> error + placements \<times> 'g" where
  "cvar_place L P job g = cvar_place_loop L P job (stages job) [] g"

section \<open>dt/api.py\<close>

text \<open>
  What \<open>create_app\<close> closes over. \<open>greedy_place\<close> is \<open>GreedyLatencyPolicy.place\<close> and
  \<open>seed_state\<close> gives the state that the (guarded) call of \<open>seed_state\<close> leaves.
\<close>

record App =
  dt_state :: DTState
  app_sim :: PredictiveSimulator
  app_cluster_manager :: "ClusterManager option"
  app_scorer :: "string \<Rightarrow> real"
  greedy_place :: "Job \<Rightarrow> error + placements"
  seed_state :: "DTState \<Rightarrow> DTState"

record PlanResponse =
  plan_id :: string
  resp_placements :: placements
  predicted_latency_ms :: real
  predicted_energy_kwh :: real
  resp_risk_score :: real
  shadow_plan :: "(string \<times> string) list"

text \<open>
  What the view returns: a 200 response, a 400 response with its \<open>error\<close> text and, when
  present, its \<open>stages\<close> list, or an exception that leaves the view uncaught.
\<close>

datatype http_result =
    Http200 PlanResponse
  | Http400 string "string list option"
  | Raised error

text \<open>\<open>str.lower\<close> on the characters that can matter for the comparison.\<close>

definition lower_char :: "char \<Rightarrow> char" where
  "lower_char c =
     (let n = (of_char c :: nat) in if 65 \<le> n \<and> n \<le> 90 then char_of (n + 32) else c)"

text \<open>\<open>select_policy\<close>, returning the chosen policy's \<open>place\<close>.\<close>

definition select_policy ::
  "App \<Rightarrow> 'g lognormal \<Rightarrow> json \<Rightarrow> error + (Job \<Rightarrow> 'g \<Rightarrow> error + placements \<times> 'g)" where
  "select_policy app L strategy =
     (case (if truthy strategy then strategy else JStr ''greedy'') of
        JStr s \<Rightarrow>
          (let nm = map lower_char s in
           if nm = ''resilient'' then
             bindE (ResilientPolicy_init (dt_state app) (app_sim app) (app_cluster_manager app)
                      (app_scorer app) (3 / 10) (5 / 10) (2 / 10))
               (\<lambda>P. Inr (\<lambda>job g. bindE (resilient_place P job) (\<lambda>pl. Inr (pl, g))))
           else if nm = ''cvar'' then
             Inr (cvar_place L
                    (RiskAwareCvarPolicy_init (dt_state app) (app_sim app)
                       (app_cluster_manager app) (app_scorer app) (95 / 100) (6 / 10)))
           else Inr (\<lambda>job g. bindE (greedy_place app job) (\<lambda>pl. Inr (pl, g))))
      | _ \<Rightarrow> Inl AttributeError)"

text \<open>The response built from a non-empty \<open>placements\<close> (source lines 64-80).\<close>

definition plan_response :: "App \<Rightarrow> string \<Rightarrow> Job \<Rightarrow> placements \<Rightarrow> PlanResponse" where
  "plan_response app uuid_hex job pl =
     (let metrics = score_plan (app_sim app) job pl in
      \<lparr>plan_id = ''plan-'' @ uuid_hex,
       resp_placements =
         py_dict (map (\<lambda>(stage_id', decision).
                    (stage_id', \<lparr>stage_id = stage_id', node_name = node_name decision,
                                 exec_format = exec_format decision\<rparr>)) pl),
       predicted_latency_ms = latency_ms metrics,
       predicted_energy_kwh = energy_kwh metrics,
       resp_risk_score = risk_score metrics,
       shadow_plan = py_dict (map (\<lambda>(s, dec). (s @ ''_backup'', node_name dec)) pl)\<rparr>)"

text \<open>The guarded re-seeding at the head of the view (source lines 41-47).\<close>

definition ensure_seeded :: "App \<Rightarrow> App" where
  "ensure_seeded app =
     (if list_nodes (dt_state app) = [] then app\<lparr>dt_state := seed_state app (dt_state app)\<rparr>
      else app)"

text \<open>
  The \<open>/plan\<close> view on the decoded request body. \<open>uuid_hex\<close> is the eight hex digits
  taken from \<open>uuid.uuid4()\<close>. The actuator is a sink whose failures are caught, so
  \<open>dry_run\<close> does not change the result.
\<close>

definition plan ::
  "py_builtins \<Rightarrow> App \<Rightarrow> 'g lognormal \<Rightarrow> string \<Rightarrow> json \<Rightarrow> 'g \<Rightarrow> http_result" where
  "plan B app0 L uuid_hex body g =
     (let app = ensure_seeded app0
      in case dict_get body ''job'' JNull of
           Inl e \<Rightarrow> Raised e
         | Inr job_spec \<Rightarrow>
             if \<not> truthy job_spec then Http400 ''missing job spec'' None
             else
               (case parse_job_spec B job_spec of
                  Inl (JobSpecError msg) \<Rightarrow> Http400 msg None
                | Inl e \<Rightarrow> Raised e
                | Inr job \<Rightarrow>
                    (case bindE (dict_get body ''strategy'' (JStr ''greedy''))
                            (select_policy app L) of
                       Inl e \<Rightarrow> Raised e
                     | Inr place \<Rightarrow>
                         (case place job g of
                            Inl e \<Rightarrow> Raised e
                          | Inr (pl, g1) \<Rightarrow>
                              if pl = [] then
                                Http400 ''no feasible placements found''
                                  (Some (map sid (stages job)))
                              else Http200 (plan_response app uuid_hex job pl)))))"

section \<open>Notions used to state the properties\<close>

text \<open>The value under a key of a JSON object; a value that is not an object has no fields.\<close>

definition field :: "json \<Rightarrow> string \<Rightarrow> json option" where
  "field v key = (case v of JObj kvs \<Rightarrow> map_of kvs key | _ \<Rightarrow> None)"

text \<open>
  The sub-object under a key (\<open>metadata\<close>, \<open>spec\<close>, \<open>compute\<close>, \<open>constraints\<close>): a
  key that is absent, null or otherwise falsy stands for the empty object.
\<close>

definition section_of :: "json \<Rightarrow> string \<Rightarrow> json" where
  "section_of v key = (case field v key of Some x \<Rightarrow> or_empty_dict x | None \<Rightarrow> JObj [])"

text \<open>
  A job spec (an object) whose \<open>spec.stages\<close> list is missing or empty: \<open>spec\<close> is
  absent or null, or it is an object whose \<open>stages\<close> is absent, null or \<open>[]\<close>.
\<close>

definition stages_missing_or_empty :: "json \<Rightarrow> bool" where
  "stages_missing_or_empty job_spec =
     (is_dict job_spec \<and>
      (case field job_spec ''spec'' of
         None \<Rightarrow> True
       | Some JNull \<Rightarrow> True
       | Some (JObj skv) \<Rightarrow> map_of skv ''stages'' \<in> {None, Some JNull, Some (JArr [])}
       | Some v \<Rightarrow> False))"

text \<open>The defaults of a parsed stage, against the stage's JSON.\<close>

definition stage_defaults :: "json \<Rightarrow> JobStage \<Rightarrow> bool" where
  "stage_defaults stage_spec stage =
     ((field (section_of stage_spec ''compute'') ''cpu'' = None \<longrightarrow> cpu (compute stage) = 0)
    \<and> (field (section_of stage_spec ''compute'') ''mem_gb'' = None
          \<longrightarrow> mem_gb (compute stage) = 0)
    \<and> (field (section_of stage_spec ''compute'') ''duration_ms'' = None
          \<longrightarrow> duration_ms (compute stage) = 0)
    \<and> (field (section_of stage_spec ''compute'') ''gpu_vram_gb'' = None
          \<longrightarrow> gpu_vram_gb (compute stage) = 0)
    \<and> (field (section_of stage_spec ''compute'') ''workload_type'' = None
          \<longrightarrow> workload_type (compute stage) = ''cpu_bound'')
    \<and> (field (section_of stage_spec ''constraints'') ''arch'' = None
          \<longrightarrow> arch (constraints stage) = [JStr ''amd64''])
    \<and> (field (section_of stage_spec ''constraints'') ''formats'' = None
          \<longrightarrow> formats (constraints stage) = [JStr ''native'']))"

text \<open>
  A mapping entry is sound for a job in a state: it is filed under its own stage id, that
  id is the id of a stage of the job, and the node it names is an available node of the
  state that has the GPU memory this stage asks for.
\<close>

definition decision_ok :: "DTState \<Rightarrow> Job \<Rightarrow> string \<times> PlacementDecision \<Rightarrow> bool" where
  "decision_ok st job e =
     (stage_id (snd e) = fst e
      \<and> (\<exists>stage \<in> set (stages job).
            sid stage = fst e
            \<and> (\<exists>nd \<in> set (list_nodes st).
                  name nd = node_name (snd e) \<and> available nd
                  \<and> (0 < gpu_vram_gb (compute stage) \<longrightarrow>
                       real_of_int (gpu_vram_gb (compute stage))
                         \<le> hw_gpu_vram_gb (hardware nd)))))"

text \<open>The strategy a request body asks for: \<open>greedy\<close> when the key is absent.\<close>

definition strategy_of :: "json \<Rightarrow> json" where
  "strategy_of body = (case field body ''strategy'' of Some s \<Rightarrow> s | None \<Rightarrow> JStr ''greedy'')"

text \<open>
  The noise samples that \<open>n\<close> successive calls of \<open>np.random.lognormal(0.0, 0.15)\<close>
  return from generator state \<open>g\<close>, and the state they leave.
\<close>

fun draws :: "'g lognormal \<Rightarrow> nat \<Rightarrow> 'g \<Rightarrow> real list" where
  "draws L 0 g = []"
| "draws L (Suc n) g = fst (L 0 (15 / 100) g) # draws L n (snd (L 0 (15 / 100) g))"

fun after_draws :: "'g lognormal \<Rightarrow> nat \<Rightarrow> 'g \<Rightarrow> 'g" where
  "after_draws L 0 g = g"
| "after_draws L (Suc n) g = after_draws L n (snd (L 0 (15 / 100) g))"











section \<open>A small deployment for worked examples\<close>

definition ex_builtins :: py_builtins where
  "ex_builtins = \<lparr>str_of = (\<lambda>v. []), int_of_str = (\<lambda>s. None)\<rparr>"

text \<open>An available node with 10 percent utilisation.\<close>

definition ex_node :: "string \<Rightarrow> real \<Rightarrow> real \<Rightarrow> real \<Rightarrow> Node" where
  "ex_node nm gpu c m =
     \<lparr>name = nm, hardware = \<lparr>hw_gpu_vram_gb = gpu\<rparr>,
      k8s = \<lparr>allocatable_cpu = c, allocatable_mem_gb = m\<rparr>,
      tel = Some \<lparr>cpu_util = 10, mem_util = 10\<rparr>, available = True\<rparr>"

text \<open>
  A simulator that runs every stage natively in 100 ms on any node, with no network delay,
  and scores a plan at 100 ms per placed stage.
\<close>

definition ex_sim :: PredictiveSimulator where
  "ex_sim =
     \<lparr>choose_exec_format = (\<lambda>stage nd. Inr ''native''),
      compute_stage_latency_ms = (\<lambda>stage nd fmt. 100),
      compute_network_delay_ms = (\<lambda>a b. 0),
      score_plan = (\<lambda>job pl. \<lparr>latency_ms = 100 * real (length pl), energy_kwh = 0,
                               risk_score = 0, sla_violations = 0\<rparr>)\<rparr>"

definition ex_state :: "Node list \<Rightarrow> DTState" where
  "ex_state nodes =
     \<lparr>list_nodes = nodes,
      get_node = (\<lambda>nm. find (\<lambda>nd. name nd = nm) nodes),
      get_cluster = (\<lambda>nm. Some nm)\<rparr>"

text \<open>Every node is its own cluster; the origin is 40 ms away from every other cluster.\<close>

definition ex_cluster_manager :: ClusterManager where
  "ex_cluster_manager a b na nb = (if a = b then 0 else 40)"

definition ex_app :: "Node list \<Rightarrow> App" where
  "ex_app nodes =
     \<lparr>dt_state = ex_state nodes, app_sim = ex_sim,
      app_cluster_manager = Some ex_cluster_manager,
      app_scorer = (\<lambda>nm. 1),
      greedy_place = (\<lambda>job. Inr []),
      seed_state = (\<lambda>st. st)\<rparr>"

text \<open>
  A generator whose state is the number of samples drawn so far; the first and the
  forty-ninth sample are 2, all others 1.
\<close>

definition ex_lognormal :: "nat lognormal" where
  "ex_lognormal mean sigma k = (if k = 0 \<or> k = 48 then 2 else 1, Suc k)"

text \<open>
  Two job specs with a single stage \<open>s1\<close> that leaves every optional field out: the
  first gives an origin with a node but no cluster, the second an empty origin object.
\<close>

definition ex_spec_origin_node :: json where
  "ex_spec_origin_node =
     JObj [(''metadata'', JObj [(''name'', JStr ''j1''),
                               (''origin'', JObj [(''node'', JStr ''n1'')])]),
           (''spec'', JObj [(''stages'', JArr [JObj [(''id'', JStr ''s1'')]])])]"

definition ex_spec_empty_origin :: json where
  "ex_spec_empty_origin =
     JObj [(''metadata'', JObj [(''name'', JStr ''j1''), (''origin'', JObj [])]),
           (''spec'', JObj [(''stages'', JArr [JObj [(''id'', JStr ''s1'')]])])]"

definition ex_stage_s1 :: JobStage where
  "ex_stage_s1 =
     \<lparr>sid = ''s1'',
      compute = \<lparr>cpu = 0, mem_gb = 0, duration_ms = 0, gpu_vram_gb = 0,
                 workload_type = ''cpu_bound''\<rparr>,
      constraints = \<lparr>arch = [JStr ''amd64''], formats = [JStr ''native''],
                     data_locality = JNull, max_latency_to_predecessor_ms = JNull\<rparr>,
      predecessor = JNull\<rparr>"

text \<open>The two policies over the example deployment, configured as \<open>select_policy\<close> does.\<close>

definition ex_resilient :: "Node list \<Rightarrow> ResilientPolicy" where
  "ex_resilient nodes =
     \<lparr>state = ex_state nodes, sim = ex_sim, cluster_manager = Some ex_cluster_manager,
      resiliency_scorer = (\<lambda>nm. 1), capacity_weight = 3 / 10, resiliency_weight = 5 / 10,
      utilization_weight = 2 / 10\<rparr>"

definition ex_cvar :: "Node list \<Rightarrow> RiskAwareCvarPolicy" where
  "ex_cvar nodes =
     RiskAwareCvarPolicy_init (ex_state nodes) ex_sim (Some ex_cluster_manager) (\<lambda>nm. 1)
       (95 / 100) (6 / 10)"

text \<open>Two nodes with 8 cpus and 16 GB each; only \<open>n2\<close> has a GPU (24 GB).\<close>

definition ex_n1 :: Node where
  "ex_n1 = ex_node ''n1'' 0 8 16"

definition ex_n2 :: Node where
  "ex_n2 = ex_node ''n2'' 24 8 16"

text \<open>
  A job of two stages without predecessors: \<open>s1\<close> asks for nothing, \<open>s2\<close> for 16 GB of GPU
  memory.
\<close>

definition ex_stage_s2 :: JobStage where
  "ex_stage_s2 =
     \<lparr>sid = ''s2'',
      compute = \<lparr>cpu = 0, mem_gb = 0, duration_ms = 0, gpu_vram_gb = 16,
                 workload_type = ''cpu_bound''\<rparr>,
      constraints = \<lparr>arch = [JStr ''amd64''], formats = [JStr ''native''],
                     data_locality = JNull, max_latency_to_predecessor_ms = JNull\<rparr>,
      predecessor = JNull\<rparr>"

definition ex_spec_two_stages :: json where
  "ex_spec_two_stages =
     JObj [(''metadata'', JObj [(''name'', JStr ''j2'')]),
           (''spec'', JObj [(''stages'',
              JArr [JObj [(''id'', JStr ''s1'')],
                    JObj [(''id'', JStr ''s2''),
                          (''compute'', JObj [(''gpu_vram_gb'', JInt 16)])]])])]"

definition ex_job_two_stages :: Job where
  "ex_job_two_stages =
     \<lparr>job_name = ''j2'', deadline_ms = 60000, stages = [ex_stage_s1, ex_stage_s2],
      origin = None\<rparr>"

definition ex_job_one_stage :: Job where
  "ex_job_one_stage =
     \<lparr>job_name = ''j1'', deadline_ms = 60000, stages = [ex_stage_s1], origin = None\<rparr>"

text \<open>A request for a resilient plan of the two-stage job.\<close>

definition ex_body_resilient :: json where
  "ex_body_resilient = JObj [(''job'', ex_spec_two_stages), (''strategy'', JStr ''resilient'')]"

text \<open>
  The two-stage job again, now with its input at the cluster \<open>edge\<close>, and a third stage
  that follows \<open>s1\<close>.
\<close>

definition ex_job_origin :: Job where
  "ex_job_origin =
     \<lparr>job_name = ''j3'', deadline_ms = 60000, stages = [ex_stage_s1, ex_stage_s2],
      origin = Some \<lparr>origin_cluster = ''edge'', origin_node = JNull\<rparr>\<rparr>"

definition ex_stage_s3 :: JobStage where
  "ex_stage_s3 = ex_stage_s1\<lparr>sid := ''s3'', predecessor := JStr ''s1''\<rparr>"




section \<open>Auxiliary facts\<close>

lemma bindE_simps [simp]: "bindE (Inl e) f = Inl e" "bindE (Inr x) f = f x"
  by (simp_all add: bindE_def)

lemma bindE_eq_Inr: "bindE m f = Inr y \<longleftrightarrow> (\<exists>x. m = Inr x \<and> f x = Inr y)"
  by (cases m) simp_all

lemma dict_get_Inr:
  "dict_get v key d = Inr x \<Longrightarrow>
     is_dict v \<and> x = (case field v key of Some y \<Rightarrow> y | None \<Rightarrow> d)"
  by (cases v) (auto simp: field_def)

lemma dict_get_section: "dict_get v key JNull = Inr x \<Longrightarrow> or_empty_dict x = section_of v key"
  by (cases v) (auto simp: field_def section_of_def or_empty_dict_def split: option.splits)

lemma dict_get_absent: "dict_get v key d = Inr x \<Longrightarrow> field v key = None \<Longrightarrow> x = d"
  by (drule dict_get_Inr) simp

lemma dict_get_present: "dict_get v key d = Inr x \<Longrightarrow> field v key = Some y \<Longrightarrow> x = y"
  by (drule dict_get_Inr) simp

lemma set_update_subset: "set (AList.update k v al) \<subseteq> insert (k, v) (set al)"
  by (induction al) auto

lemma map_of_foldl_update:
  "map_of (foldl (\<lambda>d kv. AList.update (fst kv) (snd kv) d) acc xs) = map_of (rev xs @ acc)"
proof (induction xs arbitrary: acc)
  case Nil
  then show ?case by simp
next
  case (Cons x xs)
  show ?case
    by (simp add: Cons.IH update_conv' map_add_def fun_eq_iff split: option.splits)
qed

lemma map_of_py_dict: "map_of (py_dict xs) = map_of (rev xs)"
  by (simp add: py_dict_def map_of_foldl_update)

lemma distinct_foldl_update:
  "distinct (map fst acc) \<Longrightarrow>
     distinct (map fst (foldl (\<lambda>d kv. AList.update (fst kv) (snd kv) d) acc xs))"
  by (induction xs arbitrary: acc) (simp_all add: distinct_update)

lemma distinct_py_dict: "distinct (map fst (py_dict xs))"
  by (simp add: py_dict_def distinct_foldl_update)

lemma py_dict_entry: "(k, v) \<in> set (py_dict xs) \<Longrightarrow> map_of (py_dict xs) k = Some v"
  by (simp add: distinct_py_dict)

lemma keys_py_dict: "fst ` set (py_dict xs) = fst ` set xs"
proof -
  have "dom (map_of (py_dict xs)) = dom (map_of (rev xs))"
    by (simp add: map_of_py_dict)
  then show ?thesis
    by (simp add: dom_map_of_conv_image_fst)
qed

lemma map_of_map_keys:
  "inj g \<Longrightarrow>
     map_of (map (\<lambda>(k, v). (g k, F k v)) ys) (g s) = map_option (F s) (map_of ys s)"
  by (induction ys) (auto simp: inj_def)

lemma inj_backup: "inj (\<lambda>s. s @ ''_backup'')"
  by (simp add: inj_def)

lemmas parse_eval =
  parse_job_spec_def parse_stage_def require_def parse_origin_def or_empty_dict_def
  or_empty_list_def py_str_def

lemma sample_loop_draws:
  "sample_loop L P job pl n g =
     (map (\<lambda>noise. (latency_ms (score_plan (sim P) job pl) + sample_origin_lat P job pl) * noise)
        (draws L n g),
      after_draws L n g)"
  by (induction n arbitrary: g) (simp_all add: split_beta)



section \<open>The example deployment, evaluated\<close>

lemmas ex_defs =
  ex_resilient_def ex_cvar_def ex_state_def ex_sim_def ex_n1_def ex_n2_def ex_node_def
  ex_job_two_stages_def ex_job_one_stage_def ex_stage_s1_def ex_stage_s2_def
  ex_cluster_manager_def RiskAwareCvarPolicy_init_def

lemma ex_draw: "ex_lognormal m s k = (if k = 0 \<or> k = 48 then 2 else 1, Suc k)"
  by (simp add: ex_lognormal_def)

lemma sample_loop_numeral:
  "sample_loop L P job pl (numeral n) g =
     (case L 0 (15 / 100) g of
        (noise, g1) \<Rightarrow>
          (case sample_loop L P job pl (pred_numeral n) g1 of
             (drawn, g2) \<Rightarrow>
               ((latency_ms (score_plan (sim P) job pl) + sample_origin_lat P job pl) * noise
                  # drawn, g2)))"
  by (simp add: numeral_eq_Suc)

lemmas resilient_eval =
  resilient_place_def resilient_candidate_nodes_def resilient_latency_ms_def
  lookup_predecessor_def resilient_composite_def score_capacity_fit_def utilization_score_def
  compute_origin_latency_def

lemmas cvar_eval =
  cvar_place_def cvar_candidate_nodes_def sample_cost_def np_quantile_def np_mean_def
  sample_origin_lat_def compute_origin_latency_def sample_loop_numeral ex_draw Let_def

text \<open>The resilient policy places \<open>s1\<close> on the first node and \<open>s2\<close> on the GPU node.\<close>

lemma ex_resilient_two_stages:
  "resilient_place (ex_resilient [ex_n1, ex_n2]) ex_job_two_stages =
     Inr [(''s1'', \<lparr>stage_id = ''s1'', node_name = ''n1'', exec_format = ''native''\<rparr>),
          (''s2'', \<lparr>stage_id = ''s2'', node_name = ''n2'', exec_format = ''native''\<rparr>)]"
  by (simp add: resilient_eval ex_defs)

text \<open>
  The CVaR policy on the one-stage job: started with a fresh generator it draws the sample
  2 for \<open>n1\<close> and places \<open>s1\<close> on \<open>n2\<close>.
\<close>

lemma ex_cvar_first_run:
  "cvar_place ex_lognormal (ex_cvar [ex_n1, ex_n2]) ex_job_one_stage 0 =
     Inr ([(''s1'', \<lparr>stage_id = ''s1'', node_name = ''n2'', exec_format = ''native''\<rparr>)], 32)"
  by (simp add: cvar_eval ex_defs)

lemma ex_cvar_two_stages:
  "cvar_place ex_lognormal (ex_cvar [ex_n1, ex_n2]) ex_job_two_stages 0 =
     Inr ([(''s1'', \<lparr>stage_id = ''s1'', node_name = ''n2'', exec_format = ''native''\<rparr>),
           (''s2'', \<lparr>stage_id = ''s2'', node_name = ''n2'', exec_format = ''native''\<rparr>)], 48)"
  by (simp add: cvar_eval ex_defs)

lemma ex_parse_two_stages: "parse_job_spec ex_builtins ex_spec_two_stages = Inr ex_job_two_stages"
  by (simp add: parse_eval ex_spec_two_stages_def ex_job_two_stages_def ex_stage_s1_def
      ex_stage_s2_def ex_builtins_def)

lemma ex_ensure_seeded: "ensure_seeded (ex_app nodes) = ex_app nodes"
  by (simp add: ensure_seeded_def ex_app_def)

lemma ex_select_resilient:
  "select_policy (ex_app nodes) L (JStr ''resilient'') =
     Inr (\<lambda>job g. bindE (resilient_place (ex_resilient nodes) job) (\<lambda>pl. Inr (pl, g)))"
  by (simp add: select_policy_def lower_char_def ResilientPolicy_init_def isclose_def
      ex_app_def ex_resilient_def)

text \<open>
  With the single node \<open>n1\<close>, which has no GPU, the resilient policy places \<open>s1\<close> and
  drops \<open>s2\<close>; with no node at all it places nothing.
\<close>

lemma ex_resilient_one_node:
  "resilient_place (ex_resilient [ex_n1]) ex_job_two_stages =
     Inr [(''s1'', \<lparr>stage_id = ''s1'', node_name = ''n1'', exec_format = ''native''\<rparr>)]"
  by (simp add: resilient_eval ex_defs)

lemma ex_resilient_no_node: "resilient_place (ex_resilient []) ex_job_two_stages = Inr []"
  by (simp add: resilient_eval ex_defs)

lemma ex_plan_response_one_node:
  "plan_response (ex_app nodes) ''0a1b2c3d'' ex_job_two_stages
     [(''s1'', \<lparr>stage_id = ''s1'', node_name = ''n1'', exec_format = ''native''\<rparr>)] =
   \<lparr>plan_id = ''plan-0a1b2c3d'',
    resp_placements =
      [(''s1'', \<lparr>stage_id = ''s1'', node_name = ''n1'', exec_format = ''native''\<rparr>)],
    predicted_latency_ms = 100, predicted_energy_kwh = 0, resp_risk_score = 0,
    shadow_plan = [(''s1_backup'', ''n1'')]\<rparr>"
  by (simp add: plan_response_def py_dict_def ex_app_def ex_sim_def)

lemma ex_plan_two_nodes:
  "plan ex_builtins (ex_app [ex_n1, ex_n2]) ex_lognormal ''0a1b2c3d'' ex_body_resilient 0 =
     Http200
       \<lparr>plan_id = ''plan-0a1b2c3d'',
        resp_placements =
          [(''s1'', \<lparr>stage_id = ''s1'', node_name = ''n1'', exec_format = ''native''\<rparr>),
           (''s2'', \<lparr>stage_id = ''s2'', node_name = ''n2'', exec_format = ''native''\<rparr>)],
        predicted_latency_ms = 200, predicted_energy_kwh = 0, resp_risk_score = 0,
        shadow_plan = [(''s1_backup'', ''n1''), (''s2_backup'', ''n2'')]\<rparr>"
proof -
  have b: "dict_get ex_body_resilient ''job'' JNull = Inr ex_spec_two_stages"
    "dict_get ex_body_resilient ''strategy'' (JStr ''greedy'') = Inr (JStr ''resilient'')"
    "truthy ex_spec_two_stages"
    by (simp_all add: ex_body_resilient_def ex_spec_two_stages_def)
  have r: "plan_response (ex_app [ex_n1, ex_n2]) ''0a1b2c3d'' ex_job_two_stages
     [(''s1'', \<lparr>stage_id = ''s1'', node_name = ''n1'', exec_format = ''native''\<rparr>),
      (''s2'', \<lparr>stage_id = ''s2'', node_name = ''n2'', exec_format = ''native''\<rparr>)] =
       \<lparr>plan_id = ''plan-0a1b2c3d'',
        resp_placements =
          [(''s1'', \<lparr>stage_id = ''s1'', node_name = ''n1'', exec_format = ''native''\<rparr>),
           (''s2'', \<lparr>stage_id = ''s2'', node_name = ''n2'', exec_format = ''native''\<rparr>)],
        predicted_latency_ms = 200, predicted_energy_kwh = 0, resp_risk_score = 0,
        shadow_plan = [(''s1_backup'', ''n1''), (''s2_backup'', ''n2'')]\<rparr>"
    by (simp add: plan_response_def py_dict_def ex_app_def ex_sim_def)
  show ?thesis
    by (simp add: plan_def b ex_ensure_seeded ex_parse_two_stages ex_select_resilient
        ex_resilient_two_stages r)
qed













section \<open>Rejected job specs\<close>

lemma parse_not_dict:
  "\<not> is_dict js \<Longrightarrow> parse_job_spec B js = Inl (JobSpecError ''job spec must be an object'')"
  by (simp add: parse_job_spec_def)

lemma parse_no_stages:
  "stages_missing_or_empty js \<Longrightarrow>
     parse_job_spec B js = Inl (JobSpecError ''job spec must include at least one stage'')"
  apply (cases js; simp add: stages_missing_or_empty_def field_def parse_job_spec_def)
  apply (auto simp: or_empty_dict_def or_empty_list_def split: option.splits json.splits)
  done

text \<open>
  C9. A job spec that is not an object, and a job spec whose \<open>spec.stages\<close> list is missing
  or empty, make \<open>parse_job_spec\<close> raise \<open>JobSpecError\<close>; the plan operation given such a
  job spec in its request answers 400 and builds no plan.
\<close>

theorem bad_job_spec_rejected:
  "(\<not> is_dict js \<longrightarrow>
      parse_job_spec B js = Inl (JobSpecError ''job spec must be an object''))
   \<and> (stages_missing_or_empty js \<longrightarrow>
        parse_job_spec B js = Inl (JobSpecError ''job spec must include at least one stage''))
   \<and> ((\<not> is_dict js \<or> stages_missing_or_empty js) \<and> field body ''job'' = Some js \<longrightarrow>
        plan B app L u body g =
          Http400 (if \<not> truthy js then ''missing job spec''
                   else if \<not> is_dict js then ''job spec must be an object''
                   else ''job spec must include at least one stage'') None)"
proof (intro conjI impI)
  assume "\<not> is_dict js"
  then show "parse_job_spec B js = Inl (JobSpecError ''job spec must be an object'')"
    by (rule parse_not_dict)
next
  assume "stages_missing_or_empty js"
  then show "parse_job_spec B js = Inl (JobSpecError ''job spec must include at least one stage'')"
    by (rule parse_no_stages)
next
  assume a: "(\<not> is_dict js \<or> stages_missing_or_empty js) \<and> field body ''job'' = Some js"
  then obtain kvs where b: "body = JObj kvs" "map_of kvs ''job'' = Some js"
    by (cases body) (auto simp: field_def)
  from a have "\<not> is_dict js \<or> (is_dict js \<and> stages_missing_or_empty js)"
    by blast
  then show "plan B app L u body g =
          Http400 (if \<not> truthy js then ''missing job spec''
                   else if \<not> is_dict js then ''job spec must be an object''
                   else ''job spec must include at least one stage'') None"
  proof
    assume "\<not> is_dict js"
    then show ?thesis
      using b by (simp add: plan_def Let_def parse_not_dict)
  next
    assume "is_dict js \<and> stages_missing_or_empty js"
    then show ?thesis
      using b by (simp add: plan_def Let_def parse_no_stages)
  qed
qed

theorem bad_job_spec_rejected_witness:
  "\<not> is_dict (JArr [JInt 1])
   \<and> field (JObj [(''job'', JArr [JInt 1])]) ''job'' = Some (JArr [JInt 1])
   \<and> parse_job_spec ex_builtins (JArr [JInt 1])
       = Inl (JobSpecError ''job spec must be an object'')
   \<and> plan ex_builtins (ex_app []) ex_lognormal ''0a1b2c3d'' (JObj [(''job'', JArr [JInt 1])]) 0
       = Http400 ''job spec must be an object'' None
   \<and> stages_missing_or_empty (JObj [(''spec'', JObj [(''stages'', JArr [])])])
   \<and> parse_job_spec ex_builtins (JObj [(''spec'', JObj [(''stages'', JArr [])])])
       = Inl (JobSpecError ''job spec must include at least one stage'')
   \<and> plan ex_builtins (ex_app []) ex_lognormal ''0a1b2c3d''
        (JObj [(''job'', JObj [(''spec'', JObj [(''stages'', JArr [])])])]) 0
       = Http400 ''job spec must include at least one stage'' None"
  using bad_job_spec_rejected [of "JArr [JInt 1]" ex_builtins "JObj [(''job'', JArr [JInt 1])]"
          "ex_app []" ex_lognormal "''0a1b2c3d''" 0]
        bad_job_spec_rejected [of "JObj [(''spec'', JObj [(''stages'', JArr [])])]" ex_builtins
          "JObj [(''job'', JObj [(''spec'', JObj [(''stages'', JArr [])])])]"
          "ex_app []" ex_lognormal "''0a1b2c3d''" 0]
  by (simp add: stages_missing_or_empty_def field_def)

section \<open>Defaults of the parser\<close>

lemma parse_stage_defaults:
  assumes "parse_stage B stage_spec = Inr stage"
  shows "stage_defaults stage_spec stage"
proof -
  from assms obtain i cs ks v1 c_cpu v2 c_mem v3 c_dur v4 c_gpu v5 v6 k_arch v7 k_formats
      k_loc k_max p
    where cs: "dict_get stage_spec ''compute'' JNull = Inr cs"
      and ks: "dict_get stage_spec ''constraints'' JNull = Inr ks"
      and v1: "dict_get (or_empty_dict cs) ''cpu'' (JInt 0) = Inr v1" "py_int B v1 = Inr c_cpu"
      and v2: "dict_get (or_empty_dict cs) ''mem_gb'' (JInt 0) = Inr v2"
              "py_int B v2 = Inr c_mem"
      and v3: "dict_get (or_empty_dict cs) ''duration_ms'' (JInt 0) = Inr v3"
              "py_int B v3 = Inr c_dur"
      and v4: "dict_get (or_empty_dict cs) ''gpu_vram_gb'' (JInt 0) = Inr v4"
              "py_int B v4 = Inr c_gpu"
      and v5: "dict_get (or_empty_dict cs) ''workload_type'' (JStr ''cpu_bound'') = Inr v5"
      and v6: "dict_get (or_empty_dict ks) ''arch'' (JArr [JStr ''amd64'']) = Inr v6"
              "py_list v6 = Inr k_arch"
      and v7: "dict_get (or_empty_dict ks) ''formats'' (JArr [JStr ''native'']) = Inr v7"
              "py_list v7 = Inr k_formats"
      and st: "stage = \<lparr>sid = py_str B i,
            compute = \<lparr>cpu = c_cpu, mem_gb = c_mem, duration_ms = c_dur,
                       gpu_vram_gb = c_gpu, workload_type = py_str B v5\<rparr>,
            constraints = \<lparr>arch = k_arch, formats = k_formats, data_locality = k_loc,
                           max_latency_to_predecessor_ms = k_max\<rparr>,
            predecessor = p\<rparr>"
    unfolding parse_stage_def bindE_eq_Inr by blast
  note c = dict_get_section [OF cs] and k = dict_get_section [OF ks]
  show ?thesis
    unfolding stage_defaults_def st
    using dict_get_absent [OF v1(1)] v1(2) dict_get_absent [OF v2(1)] v2(2)
      dict_get_absent [OF v3(1)] v3(2) dict_get_absent [OF v4(1)] v4(2)
      dict_get_absent [OF v5] dict_get_absent [OF v6(1)] v6(2)
      dict_get_absent [OF v7(1)] v7(2)
    by (auto simp: c k py_str_def)
qed

lemma parse_stages_pointwise:
  "parse_stages B specs = Inr sts \<Longrightarrow>
     length sts = length specs \<and> (\<forall>i<length specs. parse_stage B (specs ! i) = Inr (sts ! i))"
proof (induction specs arbitrary: sts)
  case Nil
  then show ?case by simp
next
  case (Cons a specs)
  from Cons.prems obtain s ss
    where s: "parse_stage B a = Inr s" and ss: "parse_stages B specs = Inr ss"
      and sts: "sts = s # ss"
    by (auto simp: bindE_eq_Inr)
  from Cons.IH [OF ss] show ?case
    using s sts by (auto simp: nth_Cons split: nat.splits)
qed

lemma parse_stage_str: "parse_stage B (JStr k) \<noteq> Inr st"
  by (auto simp: parse_stage_def require_def bindE_eq_Inr)

lemma parse_stages_strs: "xs \<noteq> [] \<Longrightarrow> parse_stages B (map (\<lambda>x. JStr (f x)) xs) \<noteq> Inr sts"
  by (cases xs) (auto simp: bindE_eq_Inr parse_stage_str)

lemma parse_origin_cases:
  assumes "parse_origin B (or_empty_dict od) = Inr og"
  shows "(truthy od \<and> field od ''cluster'' = None \<longrightarrow>
            (\<exists>o'. og = Some o' \<and> origin_cluster o' = ''dc-core''))
         \<and> (\<not> truthy od \<longrightarrow> og = None)"
proof (cases "truthy od")
  case True
  with assms obtain c n where c: "dict_get od ''cluster'' (JStr ''dc-core'') = Inr c"
    and og: "og = Some \<lparr>origin_cluster = py_str B c, origin_node = n\<rparr>"
    by (auto simp: parse_origin_def or_empty_dict_def bindE_eq_Inr)
  show ?thesis
    using True og dict_get_absent [OF c] by (auto simp: py_str_def)
next
  case False
  with assms show ?thesis
    by (simp add: parse_origin_def or_empty_dict_def)
qed

text \<open>
  C10, as amended. When \<open>parse_job_spec\<close> accepts a job spec: an absent \<open>deadline_ms\<close>
  gives 60000; the stages are those of the \<open>spec.stages\<close> list, in order, and in each an
  absent \<open>cpu\<close>, \<open>mem_gb\<close>, \<open>duration_ms\<close> or \<open>gpu_vram_gb\<close> gives 0, an absent
  \<open>workload_type\<close> gives \<open>cpu_bound\<close>, an absent \<open>arch\<close> gives \<open>[amd64]\<close> and an
  absent \<open>formats\<close> gives \<open>[native]\<close>; a non-empty origin object without \<open>cluster\<close>
  gives the origin cluster \<open>dc-core\<close>, and an empty (or otherwise falsy) origin gives a
  job without origin.
\<close>

theorem parse_job_spec_defaults:
  assumes "parse_job_spec B js = Inr job"
  shows "(field (section_of js ''metadata'') ''deadline_ms'' = None \<longrightarrow> deadline_ms job = 60000)
    \<and> (\<exists>specs. field (section_of js ''spec'') ''stages'' = Some (JArr specs)
          \<and> length (stages job) = length specs
          \<and> (\<forall>i<length specs. stage_defaults (specs ! i) (stages job ! i)))
    \<and> (\<forall>od. field (section_of js ''metadata'') ''origin'' = Some od \<and> truthy od
              \<and> field od ''cluster'' = None
          \<longrightarrow> (\<exists>og. origin job = Some og \<and> origin_cluster og = ''dc-core''))
    \<and> (\<forall>od. field (section_of js ''metadata'') ''origin'' = Some od \<and> \<not> truthy od
          \<longrightarrow> origin job = None)"
proof -
  from assms have dict: "is_dict js"
    by (auto simp: parse_job_spec_def split: if_splits)
  with assms obtain m s ss stages_spec nm d dl od og sts
    where m: "dict_get js ''metadata'' JNull = Inr m"
      and s: "dict_get js ''spec'' JNull = Inr s"
      and ss: "dict_get (or_empty_dict s) ''stages'' JNull = Inr ss"
      and sp: "py_list (or_empty_list ss) = Inr stages_spec"
      and ne: "stages_spec \<noteq> []"
      and d: "dict_get (or_empty_dict m) ''deadline_ms'' (JInt 60000) = Inr d"
      and dl: "py_int B d = Inr dl"
      and od: "dict_get (or_empty_dict m) ''origin'' JNull = Inr od"
      and og: "parse_origin B (or_empty_dict od) = Inr og"
      and sts: "parse_stages B stages_spec = Inr sts"
      and job: "job = \<lparr>job_name = py_str B nm, deadline_ms = dl, stages = sts, origin = og\<rparr>"
    by (auto simp: parse_job_spec_def bindE_eq_Inr split: if_splits)
  note mm = dict_get_section [OF m] and sm = dict_get_section [OF s]
  have c1: "field (section_of js ''metadata'') ''deadline_ms'' = None \<longrightarrow> deadline_ms job = 60000"
    using dict_get_absent [OF d] dl by (auto simp: mm job)
  have arr: "ss = JArr stages_spec"
  proof (cases ss)
    case (JArr xs)
    with sp ne show ?thesis by (auto simp: or_empty_list_def split: if_splits)
  next
    case (JObj kvs)
    with sp ne have "stages_spec = map (\<lambda>kv. JStr (fst kv)) kvs" "kvs \<noteq> []"
      by (auto simp: or_empty_list_def split: if_splits)
    with sts parse_stages_strs [of kvs B fst sts] show ?thesis by simp
  next
    case (JStr str)
    with sp ne have "stages_spec = map (\<lambda>c. JStr [c]) str" "str \<noteq> []"
      by (auto simp: or_empty_list_def split: if_splits)
    with sts parse_stages_strs [of str B "\<lambda>c. [c]" sts] show ?thesis by simp
  qed (use sp ne in \<open>auto simp: or_empty_list_def split: if_splits\<close>)
  have fld: "field (section_of js ''spec'') ''stages'' = Some (JArr stages_spec)"
  proof -
    from dict_get_Inr [OF ss] arr ne show ?thesis
      by (auto simp: sm split: option.splits)
  qed
  from parse_stages_pointwise [OF sts]
  have c2: "length (stages job) = length stages_spec
          \<and> (\<forall>i<length stages_spec. stage_defaults (stages_spec ! i) (stages job ! i))"
    by (auto simp: job intro: parse_stage_defaults)
  have c3: "\<forall>x. field (section_of js ''metadata'') ''origin'' = Some x \<and> truthy x
              \<and> field x ''cluster'' = None
          \<longrightarrow> (\<exists>og. origin job = Some og \<and> origin_cluster og = ''dc-core'')"
    using parse_origin_cases [OF og] dict_get_present [OF od] by (auto simp: mm job)
  have c4: "\<forall>x. field (section_of js ''metadata'') ''origin'' = Some x \<and> \<not> truthy x
          \<longrightarrow> origin job = None"
    using parse_origin_cases [OF og] dict_get_present [OF od] by (auto simp: mm job)
  from c1 fld c2 c3 c4 show ?thesis by blast
qed

theorem parse_job_spec_defaults_witness:
  "parse_job_spec ex_builtins ex_spec_origin_node =
     Inr \<lparr>job_name = ''j1'', deadline_ms = 60000, stages = [ex_stage_s1],
          origin = Some \<lparr>origin_cluster = ''dc-core'', origin_node = JStr ''n1''\<rparr>\<rparr>
   \<and> field (section_of ex_spec_origin_node ''metadata'') ''deadline_ms'' = None
   \<and> field (section_of ex_spec_origin_node ''metadata'') ''origin''
       = Some (JObj [(''node'', JStr ''n1'')])
   \<and> field (JObj [(''node'', JStr ''n1'')]) ''cluster'' = None"
proof -
  have ev: "parse_job_spec ex_builtins ex_spec_origin_node =
     Inr \<lparr>job_name = ''j1'', deadline_ms = 60000, stages = [ex_stage_s1],
          origin = Some \<lparr>origin_cluster = ''dc-core'', origin_node = JStr ''n1''\<rparr>\<rparr>"
    by (simp add: parse_eval ex_spec_origin_node_def ex_stage_s1_def)
  from parse_job_spec_defaults [OF ev] show ?thesis
    using ev by (simp add: ex_spec_origin_node_def section_of_def field_def or_empty_dict_def)
qed

text \<open>
  An origin object that omits its cluster, here the empty object, does not get the cluster
  \<open>dc-core\<close>: the parsed job has no origin at all.
\<close>

theorem empty_origin_counterexample:
  "field (section_of ex_spec_empty_origin ''metadata'') ''origin'' = Some (JObj [])
   \<and> field (JObj []) ''cluster'' = None
   \<and> parse_job_spec ex_builtins ex_spec_empty_origin =
       Inr \<lparr>job_name = ''j1'', deadline_ms = 60000, stages = [ex_stage_s1], origin = None\<rparr>"
  by (simp add: parse_eval ex_spec_empty_origin_def ex_stage_s1_def section_of_def field_def)

section \<open>Candidate nodes\<close>

text \<open>
  C5. The resilient policy's candidates for a stage are the available nodes that meet the
  GPU requirement and whose allocatable cpu and memory cover the stage's demand (hard
  gates); the CVaR policy's candidates are all available nodes, whatever their
  allocatable cpu and memory.
\<close>

theorem candidate_gates:
  "set (resilient_candidate_nodes P stage) =
     {nd \<in> set (list_nodes (state P)).
        available nd
        \<and> \<not> (0 < gpu_vram_gb (compute stage)
              \<and> hw_gpu_vram_gb (hardware nd) < real_of_int (gpu_vram_gb (compute stage)))
        \<and> real_of_int (cpu (compute stage)) \<le> allocatable_cpu (k8s nd)
        \<and> real_of_int (mem_gb (compute stage)) \<le> allocatable_mem_gb (k8s nd)}
   \<and> set (cvar_candidate_nodes Q stage) = {nd \<in> set (list_nodes (state Q)). available nd}"
  by (auto simp: resilient_candidate_nodes_def cvar_candidate_nodes_def)

section \<open>Placements reference eligible nodes\<close>

lemma resilient_scan_member:
  "resilient_scan P job stage prev cands best = Inr r \<Longrightarrow>
     (\<forall>nd c f. best = Some (nd, c, f) \<longrightarrow> nd \<in> S) \<Longrightarrow> set cands \<subseteq> S \<Longrightarrow>
     (\<forall>nd c f. r = Some (nd, c, f) \<longrightarrow> nd \<in> S)"
proof (induction cands arbitrary: best)
  case Nil
  then show ?case by simp
next
  case (Cons a cands)
  from Cons.prems(1) obtain fmt lat
    where rec: "resilient_scan P job stage prev cands
                  (if (case best of None \<Rightarrow> True
                       | Some (bn, best_score, bf) \<Rightarrow>
                           resilient_composite P stage a lat > best_score)
                   then Some (a, resilient_composite P stage a lat, fmt) else best) = Inr r"
    by (auto simp: bindE_eq_Inr Let_def)
  show ?case
  proof (rule Cons.IH [OF rec])
    show "\<forall>nd c f. (if (case best of None \<Rightarrow> True
                       | Some (bn, best_score, bf) \<Rightarrow>
                           resilient_composite P stage a lat > best_score)
                   then Some (a, resilient_composite P stage a lat, fmt) else best)
                 = Some (nd, c, f) \<longrightarrow> nd \<in> S"
      using Cons.prems(2,3) by (auto split: if_splits)
    show "set cands \<subseteq> S"
      using Cons.prems(3) by simp
  qed
qed

lemma resilient_candidate_ok:
  assumes "nd \<in> set (resilient_candidate_nodes P stage)" and "stage \<in> set (stages job)"
  shows "decision_ok (state P) job
           (sid stage, \<lparr>stage_id = sid stage, node_name = name nd, exec_format = f\<rparr>)"
  using assms unfolding decision_ok_def resilient_candidate_nodes_def
  by (auto intro!: bexI [of _ stage] bexI [of _ nd])

lemma resilient_loop_ok:
  "resilient_place_loop P job rest pl prev = Inr out \<Longrightarrow>
     set rest \<subseteq> set (stages job) \<Longrightarrow> \<forall>e \<in> set pl. decision_ok (state P) job e \<Longrightarrow>
     \<forall>e \<in> set out. decision_ok (state P) job e"
proof (induction rest arbitrary: pl prev)
  case Nil
  then show ?case by simp
next
  case (Cons stage rest)
  from Cons.prems(1) obtain best
    where scan: "resilient_scan P job stage prev (resilient_candidate_nodes P stage) None
                   = Inr best"
      and step: "(case best of
                    None \<Rightarrow> resilient_place_loop P job rest pl prev
                  | Some (bn, bs, bf) \<Rightarrow>
                      resilient_place_loop P job rest
                        (AList.update (sid stage)
                           \<lparr>stage_id = sid stage, node_name = name bn, exec_format = bf\<rparr> pl)
                        (AList.update (sid stage) bn prev)) = Inr out"
    by (auto simp: bindE_eq_Inr)
  from Cons.prems(2) have rest: "set rest \<subseteq> set (stages job)" and st: "stage \<in> set (stages job)"
    by auto
  show ?case
  proof (cases best)
    case None
    with step Cons.IH [OF _ rest Cons.prems(3)] show ?thesis by simp
  next
    case (Some t)
    obtain bn bs bf where t: "t = (bn, bs, bf)" by (cases t)
    from resilient_scan_member [OF scan, of "set (resilient_candidate_nodes P stage)"] Some t
    have "bn \<in> set (resilient_candidate_nodes P stage)" by simp
    from resilient_candidate_ok [OF this st]
    have ok: "decision_ok (state P) job
                (sid stage, \<lparr>stage_id = sid stage, node_name = name bn, exec_format = bf\<rparr>)" .
    have inv: "\<forall>e \<in> set (AList.update (sid stage)
                  \<lparr>stage_id = sid stage, node_name = name bn, exec_format = bf\<rparr> pl).
                decision_ok (state P) job e"
      using ok Cons.prems(3) set_update_subset by fastforce
    from step Some t Cons.IH [OF _ rest inv] show ?thesis by simp
  qed
qed

lemma cvar_scan_ok:
  "cvar_scan L P job stage pl cands best g = Inr (r, g') \<Longrightarrow>
     stage \<in> set (stages job) \<Longrightarrow> set cands \<subseteq> set (cvar_candidate_nodes P stage) \<Longrightarrow>
     (\<forall>d c. best = Some (d, c) \<longrightarrow> decision_ok (state P) job (sid stage, d)) \<Longrightarrow>
     (\<forall>d c. r = Some (d, c) \<longrightarrow> decision_ok (state P) job (sid stage, d))"
proof (induction cands arbitrary: best g)
  case Nil
  then show ?case by simp
next
  case (Cons nd cands)
  from Cons.prems(3) have sub: "set cands \<subseteq> set (cvar_candidate_nodes P stage)"
    and nd: "nd \<in> set (list_nodes (state P))" "available nd"
    by (auto simp: cvar_candidate_nodes_def)
  show ?case
  proof (cases "gpu_vram_gb (compute stage) > 0
         \<and> hw_gpu_vram_gb (hardware nd) < real_of_int (gpu_vram_gb (compute stage))")
    case True
    with Cons.prems(1) have "cvar_scan L P job stage pl cands best g = Inr (r, g')"
      by simp
    from Cons.IH [OF this Cons.prems(2) sub Cons.prems(4)] show ?thesis .
  next
    case False
    with Cons.prems(1) obtain fmt cv g1
      where rec: "cvar_scan L P job stage pl cands
              (if (case best of None \<Rightarrow> True
                   | Some (bd, best_cvar) \<Rightarrow>
                       cv * (1 + risk_weight P * (1 - resiliency_scorer P (name nd))) < best_cvar)
               then Some (\<lparr>stage_id = sid stage, node_name = name nd, exec_format = fmt\<rparr>,
                          cv * (1 + risk_weight P * (1 - resiliency_scorer P (name nd))))
               else best) g1 = Inr (r, g')"
      by (auto simp: bindE_eq_Inr Let_def)
    have ok: "decision_ok (state P) job
                (sid stage, \<lparr>stage_id = sid stage, node_name = name nd, exec_format = fmt\<rparr>)"
      using nd False Cons.prems(2) unfolding decision_ok_def
      by (auto intro!: bexI [of _ stage] bexI [of _ nd])
    show ?thesis
      by (rule Cons.IH [OF rec Cons.prems(2) sub]) (use ok Cons.prems(4) in \<open>auto split: if_splits\<close>)
  qed
qed

lemma cvar_loop_ok:
  "cvar_place_loop L P job rest pl g = Inr (out, g') \<Longrightarrow>
     set rest \<subseteq> set (stages job) \<Longrightarrow> \<forall>e \<in> set pl. decision_ok (state P) job e \<Longrightarrow>
     \<forall>e \<in> set out. decision_ok (state P) job e"
proof (induction rest arbitrary: pl g)
  case Nil
  then show ?case by simp
next
  case (Cons stage rest)
  from Cons.prems(1) obtain best g1
    where scan: "cvar_scan L P job stage pl (cvar_candidate_nodes P stage) None g = Inr (best, g1)"
      and step: "(case best of
                    Some (bd, bc) \<Rightarrow>
                      cvar_place_loop L P job rest (AList.update (sid stage) bd pl) g1
                  | None \<Rightarrow> cvar_place_loop L P job rest pl g1) = Inr (out, g')"
    by (auto simp: bindE_eq_Inr)
  from Cons.prems(2) have rest: "set rest \<subseteq> set (stages job)" and st: "stage \<in> set (stages job)"
    by auto
  show ?case
  proof (cases best)
    case None
    with step Cons.IH [OF _ rest Cons.prems(3)] show ?thesis by simp
  next
    case (Some t)
    obtain bd bc where t: "t = (bd, bc)" by (cases t)
    from cvar_scan_ok [OF scan st] Some t
    have ok: "decision_ok (state P) job (sid stage, bd)" by simp
    have inv: "\<forall>e \<in> set (AList.update (sid stage) bd pl). decision_ok (state P) job e"
      using ok Cons.prems(3) set_update_subset by fastforce
    from step Some t Cons.IH [OF _ rest inv] show ?thesis by simp
  qed
qed

text \<open>
  C2. Every entry of a mapping returned by the resilient or by the CVaR policy names an
  available node of the state, and when the entry's stage asks for GPU memory, that node's
  GPU memory is at least the amount asked for.
\<close>

theorem placements_reference_eligible_nodes:
  "(resilient_place P job = Inr pl \<longrightarrow> (\<forall>e \<in> set pl. decision_ok (state P) job e))
   \<and> (cvar_place L Q job g = Inr (pl', g') \<longrightarrow> (\<forall>e \<in> set pl'. decision_ok (state Q) job e))"
  using resilient_loop_ok [of P job "stages job" "[]" "[]" pl]
    cvar_loop_ok [of L Q job "stages job" "[]" g pl' g']
  by (simp add: resilient_place_def cvar_place_def)

theorem placements_reference_eligible_nodes_witness:
  "resilient_place (ex_resilient [ex_n1, ex_n2]) ex_job_two_stages =
       Inr [(''s1'', \<lparr>stage_id = ''s1'', node_name = ''n1'', exec_format = ''native''\<rparr>),
            (''s2'', \<lparr>stage_id = ''s2'', node_name = ''n2'', exec_format = ''native''\<rparr>)]
   \<and> cvar_place ex_lognormal (ex_cvar [ex_n1, ex_n2]) ex_job_two_stages 0 =
       Inr ([(''s1'', \<lparr>stage_id = ''s1'', node_name = ''n2'', exec_format = ''native''\<rparr>),
             (''s2'', \<lparr>stage_id = ''s2'', node_name = ''n2'', exec_format = ''native''\<rparr>)], 48)
   \<and> decision_ok (state (ex_resilient [ex_n1, ex_n2])) ex_job_two_stages
         (''s2'', \<lparr>stage_id = ''s2'', node_name = ''n2'', exec_format = ''native''\<rparr>)
   \<and> decision_ok (state (ex_cvar [ex_n1, ex_n2])) ex_job_two_stages
         (''s2'', \<lparr>stage_id = ''s2'', node_name = ''n2'', exec_format = ''native''\<rparr>)
   \<and> sid ex_stage_s2 = ''s2'' \<and> 0 < gpu_vram_gb (compute ex_stage_s2)
   \<and> name ex_n2 = ''n2'' \<and> available ex_n2
   \<and> real_of_int (gpu_vram_gb (compute ex_stage_s2)) \<le> hw_gpu_vram_gb (hardware ex_n2)"
  using placements_reference_eligible_nodes
    [of "ex_resilient [ex_n1, ex_n2]" ex_job_two_stages
        "[(''s1'', \<lparr>stage_id = ''s1'', node_name = ''n1'', exec_format = ''native''\<rparr>),
          (''s2'', \<lparr>stage_id = ''s2'', node_name = ''n2'', exec_format = ''native''\<rparr>)]"
        ex_lognormal "ex_cvar [ex_n1, ex_n2]" 0
        "[(''s1'', \<lparr>stage_id = ''s1'', node_name = ''n2'', exec_format = ''native''\<rparr>),
          (''s2'', \<lparr>stage_id = ''s2'', node_name = ''n2'', exec_format = ''native''\<rparr>)]" 48]
    ex_resilient_two_stages ex_cvar_two_stages
  by (simp add: ex_stage_s2_def ex_n2_def ex_node_def)

section \<open>When the plan operation fails\<close>

lemma plan_unfold:
  assumes "field body ''job'' = Some js" and "truthy js"
    and "parse_job_spec B js = Inr job"
    and "select_policy (ensure_seeded app) L (strategy_of body) = Inr place"
    and "place job g = Inr (pl, g')"
  shows "plan B app L u body g =
           (if pl = [] then
              Http400 ''no feasible placements found'' (Some (map sid (stages job)))
            else Http200 (plan_response (ensure_seeded app) u job pl))"
proof -
  from assms(1) obtain kvs where b: "body = JObj kvs" "map_of kvs ''job'' = Some js"
    by (cases body) (auto simp: field_def)
  have s: "bindE (dict_get body ''strategy'' (JStr ''greedy''))
             (select_policy (ensure_seeded app) L) = Inr place"
    using assms(4) b by (simp add: strategy_of_def field_def)
  show ?thesis
    unfolding plan_def Let_def s using b assms(2,3,5) by simp
qed

text \<open>
  C1, as amended. When the job spec parses and the chosen policy's \<open>place\<close> returns a
  mapping, the request fails with the 400 answer \<open>no feasible placements found\<close>, which
  lists all stage ids of the job, if the mapping is empty; otherwise it returns a plan
  whose placements have exactly the keys of the mapping, whether or not every stage of
  the job is among them.
\<close>

theorem plan_fails_only_on_empty_mapping:
  assumes "field body ''job'' = Some js" and "truthy js"
    and "parse_job_spec B js = Inr job"
    and "select_policy (ensure_seeded app) L (strategy_of body) = Inr place"
    and "place job g = Inr (pl, g')"
  shows "(pl = [] \<longrightarrow>
            plan B app L u body g =
              Http400 ''no feasible placements found'' (Some (map sid (stages job))))
       \<and> (pl \<noteq> [] \<longrightarrow>
            (\<exists>r. plan B app L u body g = Http200 r
                 \<and> fst ` set (resp_placements r) = fst ` set pl))"
proof -
  have keys: "fst ` set (resp_placements (plan_response (ensure_seeded app) u job pl))
                = fst ` set pl"
    by (force simp: plan_response_def Let_def keys_py_dict)
  show ?thesis
    using plan_unfold [OF assms, of u] keys by simp
qed

theorem plan_fails_only_on_empty_mapping_witness:
  "field ex_body_resilient ''job'' = Some ex_spec_two_stages
   \<and> truthy ex_spec_two_stages
   \<and> parse_job_spec ex_builtins ex_spec_two_stages = Inr ex_job_two_stages
   \<and> strategy_of ex_body_resilient = JStr ''resilient''
   \<and> resilient_place (ex_resilient []) ex_job_two_stages = Inr []
   \<and> plan ex_builtins (ex_app []) ex_lognormal ''0a1b2c3d'' ex_body_resilient 0 =
       Http400 ''no feasible placements found'' (Some [''s1'', ''s2''])
   \<and> resilient_place (ex_resilient [ex_n1]) ex_job_two_stages =
       Inr [(''s1'', \<lparr>stage_id = ''s1'', node_name = ''n1'', exec_format = ''native''\<rparr>)]
   \<and> (\<exists>r. plan ex_builtins (ex_app [ex_n1]) ex_lognormal ''0a1b2c3d'' ex_body_resilient 0
             = Http200 r
          \<and> fst ` set (resp_placements r) = {''s1''})"
proof -
  have f: "field ex_body_resilient ''job'' = Some ex_spec_two_stages"
    and t: "truthy ex_spec_two_stages"
    and s: "strategy_of ex_body_resilient = JStr ''resilient''"
    by (simp_all add: ex_body_resilient_def ex_spec_two_stages_def field_def strategy_of_def)
  have sel: "select_policy (ensure_seeded (ex_app nodes)) ex_lognormal
               (strategy_of ex_body_resilient) =
             Inr (\<lambda>job g. bindE (resilient_place (ex_resilient nodes) job) (\<lambda>pl. Inr (pl, g)))"
    for nodes
    by (simp add: s ex_ensure_seeded ex_select_resilient)
  have p0: "(\<lambda>job g. bindE (resilient_place (ex_resilient []) job) (\<lambda>pl. Inr (pl, g)))
              ex_job_two_stages (0::nat) = Inr ([], 0)"
    by (simp add: ex_resilient_no_node)
  have p1: "(\<lambda>job g. bindE (resilient_place (ex_resilient [ex_n1]) job) (\<lambda>pl. Inr (pl, g)))
              ex_job_two_stages (0::nat) =
            Inr ([(''s1'', \<lparr>stage_id = ''s1'', node_name = ''n1'',
                             exec_format = ''native''\<rparr>)], 0)"
    by (simp add: ex_resilient_one_node)
  from plan_fails_only_on_empty_mapping [OF f t ex_parse_two_stages sel p0, of "''0a1b2c3d''"]
    plan_fails_only_on_empty_mapping [OF f t ex_parse_two_stages sel p1, of "''0a1b2c3d''"]
  show ?thesis
    using f t s ex_parse_two_stages ex_resilient_no_node ex_resilient_one_node
    by (simp add: ex_job_two_stages_def ex_stage_s1_def ex_stage_s2_def)
qed

text \<open>
  A job of two stages of which the policy places only one: the mapping is smaller than the
  stage list, and the request still returns a plan.
\<close>

theorem partial_mapping_counterexample:
  "parse_job_spec ex_builtins ex_spec_two_stages = Inr ex_job_two_stages
   \<and> length (stages ex_job_two_stages) = 2
   \<and> resilient_place (ex_resilient [ex_n1]) ex_job_two_stages =
       Inr [(''s1'', \<lparr>stage_id = ''s1'', node_name = ''n1'', exec_format = ''native''\<rparr>)]
   \<and> plan ex_builtins (ex_app [ex_n1]) ex_lognormal ''0a1b2c3d'' ex_body_resilient 0 =
       Http200
         \<lparr>plan_id = ''plan-0a1b2c3d'',
          resp_placements =
            [(''s1'', \<lparr>stage_id = ''s1'', node_name = ''n1'', exec_format = ''native''\<rparr>)],
          predicted_latency_ms = 100, predicted_energy_kwh = 0, resp_risk_score = 0,
          shadow_plan = [(''s1_backup'', ''n1'')]\<rparr>"
proof -
  have f: "field ex_body_resilient ''job'' = Some ex_spec_two_stages"
    and t: "truthy ex_spec_two_stages"
    and s: "strategy_of ex_body_resilient = JStr ''resilient''"
    by (simp_all add: ex_body_resilient_def ex_spec_two_stages_def field_def strategy_of_def)
  have sel: "select_policy (ensure_seeded (ex_app [ex_n1])) ex_lognormal
               (strategy_of ex_body_resilient) =
             Inr (\<lambda>job g. bindE (resilient_place (ex_resilient [ex_n1]) job)
                             (\<lambda>pl. Inr (pl, g)))"
    by (simp add: s ex_ensure_seeded ex_select_resilient)
  have p1: "(\<lambda>job g. bindE (resilient_place (ex_resilient [ex_n1]) job) (\<lambda>pl. Inr (pl, g)))
              ex_job_two_stages (0::nat) =
            Inr ([(''s1'', \<lparr>stage_id = ''s1'', node_name = ''n1'',
                             exec_format = ''native''\<rparr>)], 0)"
    by (simp add: ex_resilient_one_node)
  have "plan ex_builtins (ex_app [ex_n1]) ex_lognormal ''0a1b2c3d'' ex_body_resilient 0 =
       Http200
         \<lparr>plan_id = ''plan-0a1b2c3d'',
          resp_placements =
            [(''s1'', \<lparr>stage_id = ''s1'', node_name = ''n1'', exec_format = ''native''\<rparr>)],
          predicted_latency_ms = 100, predicted_energy_kwh = 0, resp_risk_score = 0,
          shadow_plan = [(''s1_backup'', ''n1'')]\<rparr>"
    using plan_unfold [OF f t ex_parse_two_stages sel p1, of "''0a1b2c3d''"]
    by (simp add: ex_ensure_seeded ex_plan_response_one_node)
  then show ?thesis
    using ex_parse_two_stages ex_resilient_one_node by (simp add: ex_job_two_stages_def)
qed

section \<open>The shadow plan\<close>

lemma plan_Http200:
  assumes "plan B app L u body g = Http200 r"
  shows "\<exists>job pl. r = plan_response (ensure_seeded app) u job pl"
proof -
  from assms obtain js where js: "dict_get body ''job'' JNull = Inr js"
    by (cases "dict_get body ''job'' JNull") (simp_all add: plan_def Let_def)
  from assms js have t: "truthy js"
    by (cases "truthy js") (simp_all add: plan_def Let_def)
  from assms js t obtain job where job: "parse_job_spec B js = Inr job"
    by (cases "parse_job_spec B js") (auto simp: plan_def Let_def split: error.splits)
  from assms js t job obtain place
    where place: "bindE (dict_get body ''strategy'' (JStr ''greedy''))
                    (select_policy (ensure_seeded app) L) = Inr place"
    by (cases "bindE (dict_get body ''strategy'' (JStr ''greedy''))
                 (select_policy (ensure_seeded app) L)") (simp_all add: plan_def Let_def)
  from assms js t job place obtain pl g1 where pl: "place job g = Inr (pl, g1)"
    by (cases "place job g") (auto simp: plan_def Let_def)
  from assms js t job place pl show ?thesis
    by (auto simp: plan_def Let_def split: if_splits)
qed

lemma plan_response_shadow:
  assumes "(s, d) \<in> set (resp_placements (plan_response app u job pl))"
  shows "map_of (shadow_plan (plan_response app u job pl)) (s @ ''_backup'')
           = Some (node_name d)"
proof -
  let ?F = "\<lambda>k dec. \<lparr>stage_id = k, node_name = node_name dec, exec_format = exec_format dec\<rparr>"
  have rp: "resp_placements (plan_response app u job pl)
              = py_dict (map (\<lambda>(k, dec). (id k, ?F k dec)) pl)"
    by (simp add: plan_response_def Let_def)
  have sp: "shadow_plan (plan_response app u job pl)
              = py_dict (map (\<lambda>(k, dec). (k @ ''_backup'', node_name dec)) pl)"
    by (simp add: plan_response_def Let_def)
  from assms have "map_of (resp_placements (plan_response app u job pl)) s = Some d"
    unfolding rp by (rule py_dict_entry)
  then have "map_of (map (\<lambda>(k, dec). (k, ?F k dec)) (rev pl)) s = Some d"
    by (simp add: rp map_of_py_dict rev_map)
  then have "map_option (?F s) (map_of (rev pl) s) = Some d"
    using map_of_map_keys [of id ?F "rev pl" s] by simp
  then obtain dec where dec: "map_of (rev pl) s = Some dec" and d: "d = ?F s dec"
    by auto
  have "map_of (shadow_plan (plan_response app u job pl)) (s @ ''_backup'')
          = map_of (map (\<lambda>(k, dec). (k @ ''_backup'', node_name dec)) (rev pl)) (s @ ''_backup'')"
    by (simp add: sp map_of_py_dict rev_map)
  also have "\<dots> = map_option node_name (map_of (rev pl) s)"
    using map_of_map_keys [OF inj_backup, of "\<lambda>k. node_name" "rev pl" s] by simp
  finally show ?thesis
    using dec d by simp
qed

lemma plan_response_shadow_keys:
  "fst ` set (shadow_plan (plan_response app u job pl))
     = (\<lambda>s. s @ ''_backup'') ` fst ` set (resp_placements (plan_response app u job pl))"
  by (force simp: plan_response_def Let_def keys_py_dict image_image)

text \<open>
  C4, as amended. In every plan the plan operation returns, the shadow plan has one entry
  per placed stage, under the key \<open>\<langle>stage id\<rangle>_backup\<close>, and that entry names the
  stage's primary node.
\<close>

theorem shadow_plan_names_primary_node:
  assumes "plan B app L u body g = Http200 r"
  shows "fst ` set (shadow_plan r) = (\<lambda>s. s @ ''_backup'') ` fst ` set (resp_placements r)
       \<and> (\<forall>s d. (s, d) \<in> set (resp_placements r) \<longrightarrow>
             map_of (shadow_plan r) (s @ ''_backup'') = Some (node_name d))"
proof -
  from plan_Http200 [OF assms] obtain job pl
    where r: "r = plan_response (ensure_seeded app) u job pl"
    by blast
  show ?thesis
  proof (intro conjI allI impI)
    show "fst ` set (shadow_plan r)
            = (\<lambda>s. s @ ''_backup'') ` fst ` set (resp_placements r)"
      unfolding r by (rule plan_response_shadow_keys)
  next
    fix s d
    assume "(s, d) \<in> set (resp_placements r)"
    then show "map_of (shadow_plan r) (s @ ''_backup'') = Some (node_name d)"
      unfolding r by (rule plan_response_shadow)
  qed
qed

theorem shadow_plan_names_primary_node_witness:
  "plan ex_builtins (ex_app [ex_n1, ex_n2]) ex_lognormal ''0a1b2c3d'' ex_body_resilient 0 =
     Http200
       \<lparr>plan_id = ''plan-0a1b2c3d'',
        resp_placements =
          [(''s1'', \<lparr>stage_id = ''s1'', node_name = ''n1'', exec_format = ''native''\<rparr>),
           (''s2'', \<lparr>stage_id = ''s2'', node_name = ''n2'', exec_format = ''native''\<rparr>)],
        predicted_latency_ms = 200, predicted_energy_kwh = 0, resp_risk_score = 0,
        shadow_plan = [(''s1_backup'', ''n1''), (''s2_backup'', ''n2'')]\<rparr>
   \<and> map_of [(''s1_backup'', ''n1''), (''s2_backup'', ''n2'')] (''s2'' @ ''_backup'')
       = Some ''n2''"
  using shadow_plan_names_primary_node [OF ex_plan_two_nodes] ex_plan_two_nodes
  by simp

text \<open>
  Both nodes are candidates for stage \<open>s1\<close>, which is placed on \<open>n1\<close>; its shadow entry
  names \<open>n1\<close> again, not the other eligible node \<open>n2\<close>.
\<close>

theorem shadow_plan_counterexample:
  "plan ex_builtins (ex_app [ex_n1, ex_n2]) ex_lognormal ''0a1b2c3d'' ex_body_resilient 0 =
     Http200
       \<lparr>plan_id = ''plan-0a1b2c3d'',
        resp_placements =
          [(''s1'', \<lparr>stage_id = ''s1'', node_name = ''n1'', exec_format = ''native''\<rparr>),
           (''s2'', \<lparr>stage_id = ''s2'', node_name = ''n2'', exec_format = ''native''\<rparr>)],
        predicted_latency_ms = 200, predicted_energy_kwh = 0, resp_risk_score = 0,
        shadow_plan = [(''s1_backup'', ''n1''), (''s2_backup'', ''n2'')]\<rparr>
   \<and> resilient_candidate_nodes (ex_resilient [ex_n1, ex_n2]) ex_stage_s1 = [ex_n1, ex_n2]
   \<and> name ex_n1 = ''n1'' \<and> name ex_n2 = ''n2''"
  using ex_plan_two_nodes by (simp add: resilient_candidate_nodes_def ex_defs)

section \<open>Where the origin delay enters\<close>

lemma resilient_latency_no_origin:
  "truthy (predecessor stage) \<Longrightarrow>
     resilient_latency_ms P job stage prev nd fmt
       = resilient_latency_ms P (job\<lparr>origin := None\<rparr>) stage prev nd fmt"
  by (simp add: resilient_latency_ms_def)

lemma resilient_latency_root:
  "\<not> truthy (predecessor stage) \<Longrightarrow>
     resilient_latency_ms P job stage prev nd fmt
       = Inr (compute_stage_latency_ms (sim P) stage nd fmt + compute_origin_latency P job nd)"
  by (simp add: resilient_latency_ms_def lookup_predecessor_def compute_origin_latency_def)

lemma sample_origin_lat_later_stage:
  assumes "origin job \<noteq> None" and "stages job = s0 # rest"
    and "map_of pl (sid s0) = Some d" and "get_node (state Q) (node_name d) = Some nd0"
    and "k \<noteq> sid s0"
  shows "sample_origin_lat Q job (AList.update k dec pl) = compute_origin_latency Q job nd0"
  using assms by (simp add: sample_origin_lat_def update_conv')

text \<open>
  C8, as amended. In the resilient policy a candidate's latency has no origin term when the
  stage has a predecessor, and it is the stage latency plus the origin latency of the
  candidate when the stage has none, whether or not the stage is the job's first (the
  origin latency is 0 for a job without origin). In the CVaR policy every sampled cost of
  a tentative plan is the plan's scored latency plus \<open>origin_lat\<close>, times the noise; and
  when the job has an origin and its first stage is already placed on a known node,
  \<open>origin_lat\<close> of the tentative plan of any stage with another id is the origin latency
  of that first stage's node.
\<close>

theorem origin_delay_terms:
  "(truthy (predecessor stage) \<longrightarrow>
      resilient_latency_ms P job stage prev nd fmt
        = resilient_latency_ms P (job\<lparr>origin := None\<rparr>) stage prev nd fmt)
   \<and> (\<not> truthy (predecessor stage) \<longrightarrow>
        resilient_latency_ms P job stage prev nd fmt
          = Inr (compute_stage_latency_ms (sim P) stage nd fmt + compute_origin_latency P job nd))
   \<and> (origin job = None \<longrightarrow> compute_origin_latency P job nd = 0)
   \<and> fst (sample_loop L Q job pl n g)
       = map (\<lambda>noise. (latency_ms (score_plan (sim Q) job pl) + sample_origin_lat Q job pl)
                         * noise) (draws L n g)
   \<and> (origin job \<noteq> None \<and> stages job = s0 # rest \<and> map_of pl (sid s0) = Some d
        \<and> get_node (state Q) (node_name d) = Some nd0 \<and> sid stage \<noteq> sid s0 \<longrightarrow>
        sample_origin_lat Q job (AList.update (sid stage) dec pl)
          = compute_origin_latency Q job nd0)"
  using resilient_latency_no_origin [of stage P job prev nd fmt]
    resilient_latency_root [of stage P job prev nd fmt]
    sample_origin_lat_later_stage [of job s0 rest pl d Q nd0 "sid stage" dec]
  by (simp add: sample_loop_draws compute_origin_latency_def)

theorem origin_delay_terms_witness:
  "truthy (predecessor ex_stage_s3)
   \<and> resilient_latency_ms (ex_resilient [ex_n1, ex_n2]) ex_job_origin ex_stage_s3
        [(''s1'', ex_n1)] ex_n2 ''native'' = Inr 100
   \<and> \<not> truthy (predecessor ex_stage_s2)
   \<and> origin ex_job_origin \<noteq> None
   \<and> stages ex_job_origin = [ex_stage_s1, ex_stage_s2]
   \<and> sid ex_stage_s2 \<noteq> sid ex_stage_s1
   \<and> get_node (state (ex_cvar [ex_n1, ex_n2])) ''n1'' = Some ex_n1
   \<and> compute_origin_latency (ex_cvar [ex_n1, ex_n2]) ex_job_origin ex_n1 = 40
   \<and> sample_origin_lat (ex_cvar [ex_n1, ex_n2]) ex_job_origin
        (AList.update (sid ex_stage_s2)
           \<lparr>stage_id = ''s2'', node_name = ''n2'', exec_format = ''native''\<rparr>
           [(''s1'', \<lparr>stage_id = ''s1'', node_name = ''n1'', exec_format = ''native''\<rparr>)])
       = 40"
  using origin_delay_terms
    [of ex_stage_s3 "ex_resilient [ex_n1, ex_n2]" ex_job_origin "[(''s1'', ex_n1)]" ex_n2
        "''native''" ex_lognormal "ex_cvar [ex_n1, ex_n2]"
        "[(''s1'', \<lparr>stage_id = ''s1'', node_name = ''n1'', exec_format = ''native''\<rparr>)]"
        0 0 ex_stage_s1 "[ex_stage_s2]"
        "\<lparr>stage_id = ''s1'', node_name = ''n1'', exec_format = ''native''\<rparr>" ex_n1
        "\<lparr>stage_id = ''s2'', node_name = ''n2'', exec_format = ''native''\<rparr>"]
  by (simp add: resilient_eval ex_defs ex_job_origin_def ex_stage_s3_def sample_origin_lat_def)

text \<open>
  The job has an origin and two stages without predecessor. The latency of the candidate
  \<open>n2\<close> for the second stage \<open>s2\<close> is its stage latency of 100 ms plus the origin delay of
  40 ms; and once \<open>s1\<close> is placed, the CVaR cost of a tentative plan for \<open>s2\<close> carries the
  origin latency of the node of \<open>s1\<close>.
\<close>

theorem origin_delay_counterexample:
  "stages ex_job_origin = [ex_stage_s1, ex_stage_s2]
   \<and> compute_stage_latency_ms (sim (ex_resilient [ex_n1, ex_n2])) ex_stage_s2 ex_n2 ''native''
       = 100
   \<and> compute_origin_latency (ex_resilient [ex_n1, ex_n2]) ex_job_origin ex_n2 = 40
   \<and> resilient_latency_ms (ex_resilient [ex_n1, ex_n2]) ex_job_origin ex_stage_s2
        [(''s1'', ex_n1)] ex_n2 ''native'' = Inr 140
   \<and> sample_origin_lat (ex_cvar [ex_n1, ex_n2]) ex_job_origin
        [(''s1'', \<lparr>stage_id = ''s1'', node_name = ''n1'', exec_format = ''native''\<rparr>),
         (''s2'', \<lparr>stage_id = ''s2'', node_name = ''n2'', exec_format = ''native''\<rparr>)] = 40"
  by (simp add: resilient_eval ex_defs ex_job_origin_def sample_origin_lat_def)

section \<open>The CVaR tail cost\<close>




















section \<open>The resilient composite score\<close>













end

